theory Spec2Isabelle
  imports Complex_Main
begin

section \<open>Values exchanged with the feed service\<close>

text \<open>
  The uploader of \<^verbatim>\<open>microfeed.py\<close> talks to a feed service over HTTP and reads the
  JSON bodies of its replies with \<^verbatim>\<open>response.json()\<close>. A parsed body is any JSON
  value; an object is the dictionary Python builds from it (one entry per key).
\<close>

datatype json =
    JNull
  | JBool bool
  | JNum rat
  | JStr string
  | JArr "json list"
  | JObj "(string \<times> json) list"

text \<open>Python's truth value of a parsed JSON value, as tested by \<^verbatim>\<open>if not item_id\<close>.\<close>

fun truthy :: "json \<Rightarrow> bool" where
  "truthy JNull = False"
| "truthy (JBool b) = b"
| "truthy (JNum n) = (n \<noteq> 0)"
| "truthy (JStr s) = (s \<noteq> [])"
| "truthy (JArr xs) = (xs \<noteq> [])"
| "truthy (JObj kvs) = (kvs \<noteq> [])"

text \<open>
  The exceptions that no handler of the source catches: \<^verbatim>\<open>data.get(...)\<close> on a parsed
  body that is not a dictionary, and the division in the progress callback.
\<close>

datatype exn = AttributeError | ZeroDivisionError

text \<open>
  \<^verbatim>\<open>data.get(key)\<close>: the value stored under the key, Python's \<^verbatim>\<open>None\<close> (here the same
  value as JSON null) when the key is absent, and an \<^verbatim>\<open>AttributeError\<close> when the body
  is a list, a string, a number, a boolean or null, none of which has a \<^verbatim>\<open>get\<close>.
\<close>

fun dict_get :: "json \<Rightarrow> string \<Rightarrow> exn + json" where
  "dict_get (JObj kvs) k = Inr (case map_of kvs k of None \<Rightarrow> JNull | Some v \<Rightarrow> v)"
| "dict_get _ k = Inl AttributeError"

type_synonym path = "string list"

text \<open>
  A request, by the operation it performs. The endpoint, the headers and the JSON payload
  of the source are determined by the operation, the base URL and the key; the timeout is
  the \<^verbatim>\<open>timeout=\<close> argument of the call (\<open>None\<close> where the call passes none, which
  for the HTTP library means waiting without limit).
\<close>

datatype operation =
    CreateItem string string
  | PresignedUrl json string path
  | PutFile json path
  | FetchItem json
  | UpdateItem json json string nat string string

record request =
  op :: operation
  api :: string
  key :: string
  timeout :: "nat option"

text \<open>
  The body of a reply: \<open>NotJson\<close> when \<^verbatim>\<open>response.json()\<close> raises the library's
  \<^verbatim>\<open>JSONDecodeError\<close> (a \<^verbatim>\<open>RequestException\<close>), otherwise the parsed value.
\<close>

datatype body = NotJson | Json json

text \<open>
  The outcome of one exchange: \<open>NoResponse k\<close> when the library raises a transport-level
  error (for an upload, after \<open>k\<close> reads of the file), otherwise the status code,
  whether the reply carries a \<^verbatim>\<open>Retry-After\<close> header, and the body.
\<close>

datatype reply = NoResponse nat | Response nat bool body

section \<open>Events and state\<close>

text \<open>
  The texts put on the queue under \<^verbatim>\<open>'status'\<close>, one constructor per format string of
  \<^verbatim>\<open>process_files\<close>, with the values the string interpolates (the text of a caught
  exception is left out).
\<close>

datatype status_msg =
    Scanning path
  | NoVideoFiles
  | ProcessingFile string nat nat
  | TooLargeMoved string
  | TooLargeMoveFailed string
  | SkippingCreate string
  | SkippingPresigned string
  | FailedUpload string
  | FailedFetch json
  | Successfully string
  | MovedProcessed string
  | ProcessedMoveFailed string
  | FailedUpdate json string
  | AllProcessed

text \<open>
  The dictionaries put on \<^verbatim>\<open>root.queue\<close>, by their key. The per-file status is the
  string of the source. The throughput text of \<^verbatim>\<open>'file_speed'\<close> depends on the wall
  clock and is not represented.
\<close>

datatype event =
    Status status_msg
  | FileStatus string string
  | FileLocation string path
  | FileItemId string json
  | FileApiLink string json
  | FileProgress string rat
  | FileSpeed string
  | OverallProgress rat
  | EnableButtons bool

text \<open>
  What the worker has done so far: the events put on the queue, the requests issued (each
  upload attempt is one), the argument pairs the progress callback was called with, the
  moves \<^verbatim>\<open>shutil.move\<close> completed (source, destination), and the counter
  \<^verbatim>\<open>files_processed\<close>. Log lines are not represented.
\<close>

record state =
  queue :: "event list"
  calls :: "request list"
  progress_calls :: "(nat \<times> nat) list"
  moves :: "(path \<times> path) list"
  files_processed :: nat

definition put :: "event \<Rightarrow> state \<Rightarrow> state" where
  "put ev st = st\<lparr>queue := queue st @ [ev]\<rparr>"

text \<open>
  The network is an oracle: the reply to a request may depend on the request and on how
  many requests were issued before it.
\<close>

type_synonym net = "nat \<Rightarrow> request \<Rightarrow> reply"

definition send :: "net \<Rightarrow> request \<Rightarrow> state \<Rightarrow> reply \<times> state" where
  "send net req st = (net (length (calls st)) req, st\<lparr>calls := calls st @ [req]\<rparr>)"

section \<open>Feed client\<close>

definition create_item_request :: "string \<Rightarrow> string \<Rightarrow> string \<Rightarrow> string \<Rightarrow> request" where
  "create_item_request api_url api_key title status =
     \<lparr>op = CreateItem title status, api = api_url, key = api_key, timeout = None\<rparr>"

definition create_item ::
  "net \<Rightarrow> string \<Rightarrow> string \<Rightarrow> string \<Rightarrow> string \<Rightarrow> state \<Rightarrow> (exn + json option) \<times> state" where
  "create_item net api_url api_key title status st =
     (case send net (create_item_request api_url api_key title status) st of
        (NoResponse k, st1) \<Rightarrow> (Inr None, st1)
      | (Response status_code ra b, st1) \<Rightarrow>
          if status_code = 201 then
            (case b of
               NotJson \<Rightarrow> (Inr None, st1)
             | Json data \<Rightarrow>
                 (case dict_get data ''id'' of
                    Inl e \<Rightarrow> (Inl e, st1)
                  | Inr item_id \<Rightarrow>
                      if \<not> truthy item_id then (Inr None, st1)
                      else (Inr (Some item_id), st1)))
          else (Inr None, st1))"

definition generate_presigned_url_request :: "string \<Rightarrow> string \<Rightarrow> json \<Rightarrow> string \<Rightarrow> path \<Rightarrow> request" where
  "generate_presigned_url_request api_url api_key item_id category file_path =
     \<lparr>op = PresignedUrl item_id category file_path, api = api_url, key = api_key, timeout = None\<rparr>"

text \<open>The pair \<^verbatim>\<open>(None, None)\<close> of the source is \<open>None\<close>.\<close>

definition generate_presigned_url ::
  "net \<Rightarrow> string \<Rightarrow> string \<Rightarrow> json \<Rightarrow> string \<Rightarrow> path \<Rightarrow> state \<Rightarrow> (exn + (json \<times> json) option) \<times> state" where
  "generate_presigned_url net api_url api_key item_id category file_path st =
     (case send net (generate_presigned_url_request api_url api_key item_id category file_path) st of
        (NoResponse k, st1) \<Rightarrow> (Inr None, st1)
      | (Response status_code ra b, st1) \<Rightarrow>
          if status_code = 201 then
            (case b of
               NotJson \<Rightarrow> (Inr None, st1)
             | Json data \<Rightarrow>
                 (case dict_get data ''presigned_url'' of
                    Inl e \<Rightarrow> (Inl e, st1)
                  | Inr presigned_url \<Rightarrow>
                      (case dict_get data ''media_url'' of
                         Inl e \<Rightarrow> (Inl e, st1)
                       | Inr media_url \<Rightarrow>
                           if \<not> truthy presigned_url \<or> \<not> truthy media_url then (Inr None, st1)
                           else (Inr (Some (presigned_url, media_url)), st1))))
          else (Inr None, st1))"

definition fetch_item_request :: "string \<Rightarrow> string \<Rightarrow> json \<Rightarrow> request" where
  "fetch_item_request api_url api_key item_id =
     \<lparr>op = FetchItem item_id, api = api_url, key = api_key, timeout = Some 30\<rparr>"

definition fetch_item :: "net \<Rightarrow> string \<Rightarrow> string \<Rightarrow> json \<Rightarrow> state \<Rightarrow> json option \<times> state" where
  "fetch_item net api_url api_key item_id st =
     (case send net (fetch_item_request api_url api_key item_id) st of
        (NoResponse k, st1) \<Rightarrow> (None, st1)
      | (Response status_code ra b, st1) \<Rightarrow>
          if status_code = 200 then
            (case b of NotJson \<Rightarrow> (None, st1) | Json data \<Rightarrow> (Some data, st1))
          else (None, st1))"

definition update_item_with_attachment_request ::
  "string \<Rightarrow> string \<Rightarrow> json \<Rightarrow> json \<Rightarrow> string \<Rightarrow> nat \<Rightarrow> string \<Rightarrow> string \<Rightarrow> request" where
  "update_item_with_attachment_request api_url api_key item_id media_url mime_type size_in_bytes
      title status =
     \<lparr>op = UpdateItem item_id media_url mime_type size_in_bytes title status,
      api = api_url, key = api_key, timeout = None\<rparr>"

definition update_item_with_attachment ::
  "net \<Rightarrow> string \<Rightarrow> string \<Rightarrow> json \<Rightarrow> json \<Rightarrow> string \<Rightarrow> nat \<Rightarrow> string \<Rightarrow> string \<Rightarrow> state \<Rightarrow> bool \<times> state" where
  "update_item_with_attachment net api_url api_key item_id media_url mime_type size_in_bytes title status st =
     (case send net (update_item_with_attachment_request api_url api_key item_id media_url mime_type
                       size_in_bytes title status) st of
        (NoResponse k, st1) \<Rightarrow> (False, st1)
      | (Response status_code ra b, st1) \<Rightarrow>
          if status_code = 200 then (True, st1)
          else if status_code = 404 then (False, st1)
          else (False, st1))"

section \<open>Transfer\<close>

text \<open>
  A discovered file as the worker sees it: its name and stem, the size \<^verbatim>\<open>stat()\<close>
  and \<^verbatim>\<open>os.path.getsize\<close> report, whether \<^verbatim>\<open>open\<close> finds it (otherwise
  \<^verbatim>\<open>FileNotFoundError\<close>), and whether the one \<^verbatim>\<open>shutil.move\<close> attempted for it
  completes (otherwise it raises, and the handler of the source runs).
\<close>

record video_file =
  file_name :: string
  stem :: string
  st_size :: nat
  opens :: bool
  move_ok :: bool

text \<open>
  The closure \<^verbatim>\<open>progress_callback\<close> of \<^verbatim>\<open>process_files\<close>. The division of two integers
  raises \<^verbatim>\<open>ZeroDivisionError\<close> on a zero total; the percentage is the exact quotient
  (for counts that differ it is never 100, as for the floating-point quotient).
\<close>

definition progress_callback :: "string \<Rightarrow> nat \<Rightarrow> nat \<Rightarrow> state \<Rightarrow> exn option \<times> state" where
  "progress_callback name bytes_uploaded total_size st =
     (let st1 = st\<lparr>progress_calls := progress_calls st @ [(bytes_uploaded, total_size)]\<rparr>
      in if total_size = 0 then (Some ZeroDivisionError, st1)
         else (let percentage = of_nat bytes_uploaded / of_nat total_size * 100
               in (None, put (FileSpeed name) (put (FileProgress name percentage) st1))))"

record ProgressFile =
  callback :: "nat \<Rightarrow> nat \<Rightarrow> state \<Rightarrow> exn option \<times> state"
  total :: nat
  read_bytes :: nat

definition ProgressFile_init :: "nat \<Rightarrow> (nat \<Rightarrow> nat \<Rightarrow> state \<Rightarrow> exn option \<times> state) \<Rightarrow> ProgressFile" where
  "ProgressFile_init file_size cb = \<lparr>callback = cb, total = file_size, read_bytes = 0\<rparr>"

text \<open>
  \<^verbatim>\<open>ProgressFile.read\<close>, given the length of the data the wrapped file returned
  (zero at the end of the file).
\<close>

definition ProgressFile_read :: "nat \<Rightarrow> ProgressFile \<Rightarrow> state \<Rightarrow> exn option \<times> ProgressFile \<times> state" where
  "ProgressFile_read data_len pf st =
     (if data_len \<noteq> 0 then
        (let pf1 = pf\<lparr>read_bytes := read_bytes pf + data_len\<rparr>
         in case callback pf1 (read_bytes pf1) (total pf1) st of (e, st1) \<Rightarrow> (e, pf1, st1))
      else (None, pf, st))"

text \<open>
  The lengths a file of the given size returns when it is read from its start in blocks,
  up to and including the empty read at its end.
\<close>

fun chunk_lens :: "nat \<Rightarrow> nat \<Rightarrow> nat list" where
  "chunk_lens n blocksize =
     (if n = 0 \<or> blocksize = 0 then []
      else min n blocksize # chunk_lens (n - min n blocksize) blocksize)"

declare chunk_lens.simps [simp del]

definition file_reads :: "nat \<Rightarrow> nat \<Rightarrow> nat list" where
  "file_reads n blocksize = chunk_lens n blocksize @ [0]"

text \<open>
  The HTTP library sending a body: it calls \<^verbatim>\<open>read\<close> on the object it was given, the
  plain file (\<open>None\<close>) or the wrapper, once per block.
\<close>

fun read_body :: "nat list \<Rightarrow> ProgressFile option \<Rightarrow> state \<Rightarrow> exn option \<times> ProgressFile option \<times> state" where
  "read_body [] f st = (None, f, st)"
| "read_body (n # ns) None st = read_body ns None st"
| "read_body (n # ns) (Some pf) st =
     (case ProgressFile_read n pf st of
        (Some e, pf1, st1) \<Rightarrow> (Some e, Some pf1, st1)
      | (None, pf1, st1) \<Rightarrow> read_body ns (Some pf1) st1)"

text \<open>
  The retry policy \<^verbatim>\<open>Retry(total, status_forcelist=[500, 502, 503, 504],
  allowed_methods=["PUT"])\<close> of the HTTP library, for a PUT: a reply is retried when its
  status is on the list, or when retries remain and it is a 413, 429 or 503 carrying
  \<^verbatim>\<open>Retry-After\<close> (the library's default \<^verbatim>\<open>respect_retry_after_header\<close>).
\<close>

definition status_forcelist :: "nat list" where
  "status_forcelist = [500, 502, 503, 504]"

definition is_retry :: "nat \<Rightarrow> nat \<Rightarrow> bool \<Rightarrow> bool" where
  "is_retry retries_left status_code has_retry_after =
     (status_code \<in> set status_forcelist
      \<or> (retries_left \<noteq> 0 \<and> has_retry_after \<and> status_code \<in> {413, 429, 503}))"

text \<open>
  \<^verbatim>\<open>session.put\<close> through the adapter: every attempt is one request; the library rewinds
  the body with \<^verbatim>\<open>seek\<close> (which the wrapper hands on to the file) and reads it again
  through the same object. A reply arrives after the whole body was read. When no retry
  is left the library raises a \<^verbatim>\<open>RequestException\<close> (\<open>Inr None\<close>); the waiting
  between attempts is not represented. \<open>NoResponse\<close> stands here for a connection or
  read error, which the policy retries for a PUT; an error the library raises before it
  sends anything, such as a malformed URL, is not represented. A reply is the final
  answer of its attempt: a 3xx status ends the call like any other status outside the
  list, and the library following a redirect (for 307 and 308 by sending the body again
  through the same wrapper) is not represented.
\<close>

fun session_put ::
  "net \<Rightarrow> request \<Rightarrow> nat list \<Rightarrow> nat \<Rightarrow> ProgressFile option \<Rightarrow> state
   \<Rightarrow> (exn + nat option) \<times> ProgressFile option \<times> state" where
  "session_put net req reads retries_left f st =
     (case send net req st of
        (NoResponse k, st1) \<Rightarrow>
          (case read_body (take k reads) f st1 of
             (Some e, f2, st2) \<Rightarrow> (Inl e, f2, st2)
           | (None, f2, st2) \<Rightarrow>
               if retries_left = 0 then (Inr None, f2, st2)
               else session_put net req reads (retries_left - 1) f2 st2)
      | (Response status_code ra b, st1) \<Rightarrow>
          (case read_body reads f st1 of
             (Some e, f2, st2) \<Rightarrow> (Inl e, f2, st2)
           | (None, f2, st2) \<Rightarrow>
               if is_retry retries_left status_code ra then
                 (if retries_left = 0 then (Inr None, f2, st2)
                  else session_put net req reads (retries_left - 1) f2 st2)
               else (Inr (Some status_code), f2, st2)))"

declare session_put.simps [simp del]

definition upload_file_request :: "json \<Rightarrow> path \<Rightarrow> request" where
  "upload_file_request presigned_url file_path =
     \<lparr>op = PutFile presigned_url file_path, api = [], key = [], timeout = Some 300\<rparr>"

definition upload_file ::
  "net \<Rightarrow> nat \<Rightarrow> json \<Rightarrow> path \<Rightarrow> video_file
   \<Rightarrow> (nat \<Rightarrow> nat \<Rightarrow> state \<Rightarrow> exn option \<times> state) option \<Rightarrow> nat \<Rightarrow> state \<Rightarrow> (exn + bool) \<times> state" where
  "upload_file net blocksize presigned_url file_path file progress_cb max_retries st =
     (if \<not> opens file then (Inr False, st)
      else
        (let f = (case progress_cb of
                    None \<Rightarrow> None
                  | Some cb \<Rightarrow> Some (ProgressFile_init (st_size file) cb))
         in case session_put net (upload_file_request presigned_url file_path)
                   (file_reads (st_size file) blocksize) max_retries f st of
              (Inl e, f1, st1) \<Rightarrow> (Inl e, st1)
            | (Inr None, f1, st1) \<Rightarrow> (Inr False, st1)
            | (Inr (Some status_code), f1, st1) \<Rightarrow> (Inr (status_code \<in> {200, 201, 204}), st1)))"

section \<open>The pipeline\<close>

definition puts :: "event list \<Rightarrow> state \<Rightarrow> state" where
  "puts evs st = st\<lparr>queue := queue st @ evs\<rparr>"

text \<open>
  The test \<^verbatim>\<open>size_in_bytes > 4.8 * 1024 * 1024 * 1024\<close> compares an integer with a
  double. The double nearest to 4.8 is \<open>5404319552844595 / 2 ^ 50\<close>, the three
  multiplications by 1024 are exact, and Python compares an integer and a double by their
  exact values.
\<close>

definition too_large :: "nat \<Rightarrow> bool" where
  "too_large size_in_bytes = (5404319552844595 < size_in_bytes * 2 ^ 20)"

text \<open>
  The body of the loop of \<^verbatim>\<open>process_files\<close> for one file. The result is the exception
  that leaves the loop, if any, and the state reached. \<^verbatim>\<open>mkdir(exist_ok=True)\<close> and
  \<^verbatim>\<open>stat()\<close> are taken to succeed; \<^verbatim>\<open>guess_type\<close> stands for
  \<^verbatim>\<open>mimetypes.guess_type\<close>; the pause after the upload is not represented.
\<close>

definition process_file ::
  "net \<Rightarrow> nat \<Rightarrow> (string \<Rightarrow> string option) \<Rightarrow> path \<Rightarrow> string \<Rightarrow> string \<Rightarrow> nat \<Rightarrow> nat
   \<Rightarrow> video_file \<Rightarrow> state \<Rightarrow> exn option \<times> state" where
  "process_file net blocksize guess_type folder_path api_key microfeed_url total_files idx file st =
     (let name = file_name file;
          file_path = folder_path @ [name];
          st1 = puts [Status (ProcessingFile name (idx + 1) total_files),
                      FileStatus name ''Processing''] st
      in
      if too_large (st_size file) then
        (let destination = folder_path @ [''too_large'', name]
         in if move_ok file then
              (None, puts [Status (TooLargeMoved name), FileStatus name ''Too Large'',
                           FileLocation name destination]
                       (st1\<lparr>moves := moves st1 @ [(file_path, destination)]\<rparr>))
            else
              (None, puts [Status (TooLargeMoveFailed name), FileStatus name ''Error''] st1))
      else
        (let title = stem file; status = ''published''
         in
         case create_item net microfeed_url api_key title status st1 of
           (Inl e, st2) \<Rightarrow> (Some e, st2)
         | (Inr None, st2) \<Rightarrow>
             (None, puts [Status (SkippingCreate name), FileStatus name ''Error''] st2)
         | (Inr (Some item_id), st2) \<Rightarrow>
             (case generate_presigned_url net microfeed_url api_key item_id ''video'' file_path
                     (puts [FileItemId name item_id] st2) of
                (Inl e, st3) \<Rightarrow> (Some e, st3)
              | (Inr None, st3) \<Rightarrow>
                  (None, puts [Status (SkippingPresigned name), FileStatus name ''Error''] st3)
              | (Inr (Some (presigned_url, media_url)), st3) \<Rightarrow>
                  (case upload_file net blocksize presigned_url file_path file
                          (Some (progress_callback name)) 3
                          (puts [FileApiLink name media_url] st3) of
                     (Inl e, st4) \<Rightarrow> (Some e, st4)
                   | (Inr False, st4) \<Rightarrow>
                       (None, puts [Status (FailedUpload name),
                                    FileStatus name ''Upload Failed''] st4)
                   | (Inr True, st4) \<Rightarrow>
                       (case fetch_item net microfeed_url api_key item_id st4 of
                          (item_data, st5) \<Rightarrow>
                            if \<not> (case item_data of None \<Rightarrow> False | Some d \<Rightarrow> truthy d) then
                              (None, puts [Status (FailedFetch item_id),
                                           FileStatus name ''Error''] st5)
                            else
                              (let mime_type = (case guess_type name of
                                                  None \<Rightarrow> ''application/octet-stream''
                                                | Some m \<Rightarrow> m);
                                   size_in_bytes = st_size file
                               in
                               case update_item_with_attachment net microfeed_url api_key item_id
                                      media_url mime_type size_in_bytes title status st5 of
                                 (update_success, st6) \<Rightarrow>
                                   (let st7 =
                                      (if update_success then
                                         (let st6a = puts [Status (Successfully name),
                                                           FileStatus name ''Completed''] st6;
                                              destination = folder_path @ [''processed'', name]
                                          in if move_ok file then
                                               puts [Status (MovedProcessed name),
                                                     FileLocation name destination]
                                                 (st6a\<lparr>moves := moves st6a @ [(file_path, destination)]\<rparr>)
                                             else puts [Status (ProcessedMoveFailed name)] st6a)
                                       else puts [Status (FailedUpdate item_id name),
                                                  FileStatus name ''Error''] st6);
                                        st8 = st7\<lparr>files_processed := files_processed st7 + 1\<rparr>
                                    in if total_files = 0 then (Some ZeroDivisionError, st8)
                                       else
                                         (let overall_percentage =
                                                of_nat (files_processed st8) / of_nat total_files * 100
                                          in (None, puts [OverallProgress overall_percentage,
                                                          FileProgress name 100] st8)))))))))"

text \<open>The loop over the discovered files; an exception that no handler catches ends it.\<close>

fun process_loop ::
  "net \<Rightarrow> nat \<Rightarrow> (string \<Rightarrow> string option) \<Rightarrow> path \<Rightarrow> string \<Rightarrow> string \<Rightarrow> nat \<Rightarrow> nat
   \<Rightarrow> video_file list \<Rightarrow> state \<Rightarrow> exn option \<times> state" where
  "process_loop net blocksize guess_type folder_path api_key microfeed_url total_files idx [] st =
     (None, st)"
| "process_loop net blocksize guess_type folder_path api_key microfeed_url total_files idx (file # files) st =
     (case process_file net blocksize guess_type folder_path api_key microfeed_url total_files idx file st of
        (Some e, st1) \<Rightarrow> (Some e, st1)
      | (None, st1) \<Rightarrow>
          process_loop net blocksize guess_type folder_path api_key microfeed_url total_files
            (idx + 1) files st1)"

text \<open>
  \<^verbatim>\<open>process_files\<close>, from the loaded configuration and the list \<^verbatim>\<open>get_video_files\<close>
  returned. The rows the source enters in the table before the loop (status
  \<^verbatim>\<open>"Pending"\<close>) are written to the window directly, not to the queue.
\<close>

definition initial_state :: state where
  "initial_state = \<lparr>queue = [], calls = [], progress_calls = [], moves = [], files_processed = 0\<rparr>"

definition process_files ::
  "net \<Rightarrow> nat \<Rightarrow> (string \<Rightarrow> string option) \<Rightarrow> path \<Rightarrow> string \<Rightarrow> string \<Rightarrow> video_file list
   \<Rightarrow> exn option \<times> state" where
  "process_files net blocksize guess_type folder_path api_key microfeed_url video_files =
     (let st1 = puts [Status (Scanning folder_path)] initial_state
      in if video_files = [] then
           (None, puts [Status NoVideoFiles, EnableButtons True] st1)
         else
           (case process_loop net blocksize guess_type folder_path api_key microfeed_url
                   (length video_files) 0 video_files st1 of
              (Some e, st2) \<Rightarrow> (Some e, st2)
            | (None, st2) \<Rightarrow> (None, puts [Status AllProcessed, EnableButtons True] st2)))"

section \<open>Observations and sample inputs\<close>

text \<open>What one step added to the queue and to the list of requests.\<close>

definition new_events :: "state \<Rightarrow> state \<Rightarrow> event list" where
  "new_events st st' = drop (length (queue st)) (queue st')"

definition new_calls :: "state \<Rightarrow> state \<Rightarrow> request list" where
  "new_calls st st' = drop (length (calls st)) (calls st')"

text \<open>
  The counts a wrapper reports when it starts at \<open>b\<close> and the wrapped file returns data
  of the given lengths: the running totals after every non-empty read.
\<close>

fun counts :: "nat \<Rightarrow> nat list \<Rightarrow> nat list" where
  "counts b [] = []"
| "counts b (n # ns) = (if n = 0 then counts b ns else (b + n) # counts (b + n) ns)"

text \<open>The effect on the state of the progress callback called with each of the counts in turn.\<close>

definition report :: "string \<Rightarrow> nat \<Rightarrow> nat list \<Rightarrow> state \<Rightarrow> state" where
  "report name t cs st =
     st\<lparr>queue := queue st @ concat (map (\<lambda>c. [FileProgress name (of_nat c / of_nat t * 100),
         FileSpeed name]) cs),
        progress_calls := progress_calls st @ map (\<lambda>c. (c, t)) cs\<rparr>"

text \<open>
  For one attempt of an upload, by the reply it gets: the reads of the body it makes,
  whether the library tries again, and what the library hands back when it does not.
\<close>

definition attempt_reads :: "reply \<Rightarrow> nat list \<Rightarrow> nat list" where
  "attempt_reads rep reads = (case rep of NoResponse k \<Rightarrow> take k reads | Response c ra b \<Rightarrow> reads)"

definition retried :: "nat \<Rightarrow> reply \<Rightarrow> bool" where
  "retried r rep = (r \<noteq> 0 \<and> (case rep of NoResponse k \<Rightarrow> True | Response c ra b \<Rightarrow> is_retry r c ra))"

definition final_result :: "nat \<Rightarrow> reply \<Rightarrow> nat option" where
  "final_result r rep = (case rep of NoResponse k \<Rightarrow> None | Response c ra b \<Rightarrow> if is_retry r c ra then
      None else Some c)"

text \<open>
  Shorthand for the calls of the loop body, each with the state it is made in: the two
  events that announce a file, and the create, credential, upload and update calls.
\<close>

abbreviation announcement :: "video_file \<Rightarrow> nat \<Rightarrow> nat \<Rightarrow> event list" where
  "announcement file idx total_files \<equiv>
     [Status (ProcessingFile (file_name file) (idx + 1) total_files),
      FileStatus (file_name file) ''Processing'']"

abbreviation create_step ::
  "net \<Rightarrow> string \<Rightarrow> string \<Rightarrow> nat \<Rightarrow> nat \<Rightarrow> video_file \<Rightarrow> state \<Rightarrow> (exn + json option) \<times> state" where
  "create_step net microfeed_url api_key total_files idx file st \<equiv>
     create_item net microfeed_url api_key (stem file) ''published''
       (puts (announcement file idx total_files) st)"

abbreviation credential_step ::
  "net \<Rightarrow> string \<Rightarrow> string \<Rightarrow> path \<Rightarrow> video_file \<Rightarrow> json \<Rightarrow> state
   \<Rightarrow> (exn + (json \<times> json) option) \<times> state" where
  "credential_step net microfeed_url api_key folder_path file item_id st2 \<equiv>
     generate_presigned_url net microfeed_url api_key item_id ''video'' (folder_path @ [file_name file])
       (puts [FileItemId (file_name file) item_id] st2)"

abbreviation upload_step ::
  "net \<Rightarrow> nat \<Rightarrow> path \<Rightarrow> video_file \<Rightarrow> json \<Rightarrow> json \<Rightarrow> state \<Rightarrow> (exn + bool) \<times> state" where
  "upload_step net blocksize folder_path file presigned_url media_url st3 \<equiv>
     upload_file net blocksize presigned_url (folder_path @ [file_name file]) file
       (Some (progress_callback (file_name file))) 3
       (puts [FileApiLink (file_name file) media_url] st3)"

abbreviation update_step ::
  "net \<Rightarrow> string \<Rightarrow> string \<Rightarrow> (string \<Rightarrow> string option) \<Rightarrow> video_file \<Rightarrow> json \<Rightarrow> json \<Rightarrow> state
   \<Rightarrow> bool \<times> state" where
  "update_step net microfeed_url api_key guess_type file item_id media_url st5 \<equiv>
     update_item_with_attachment net microfeed_url api_key item_id media_url
       (case guess_type (file_name file) of None \<Rightarrow> ''application/octet-stream'' | Some m \<Rightarrow> m)
       (st_size file) (stem file) ''published'' st5"

text \<open>Shorthand for the requests of one file.\<close>

abbreviation create_request :: "string \<Rightarrow> string \<Rightarrow> video_file \<Rightarrow> request" where
  "create_request microfeed_url api_key file \<equiv>
     create_item_request microfeed_url api_key (stem file) ''published''"

abbreviation credential_request :: "string \<Rightarrow> string \<Rightarrow> path \<Rightarrow> video_file \<Rightarrow> json \<Rightarrow> request" where
  "credential_request microfeed_url api_key folder_path file item_id \<equiv>
     generate_presigned_url_request microfeed_url api_key item_id ''video'' (folder_path @ [file_name file])"

abbreviation upload_request :: "path \<Rightarrow> video_file \<Rightarrow> json \<Rightarrow> request" where
  "upload_request folder_path file presigned_url \<equiv>
     upload_file_request presigned_url (folder_path @ [file_name file])"

abbreviation update_request ::
  "string \<Rightarrow> string \<Rightarrow> (string \<Rightarrow> string option) \<Rightarrow> video_file \<Rightarrow> json \<Rightarrow> json \<Rightarrow> request" where
  "update_request microfeed_url api_key guess_type file item_id media_url \<equiv>
     update_item_with_attachment_request microfeed_url api_key item_id media_url
       (case guess_type (file_name file) of None \<Rightarrow> ''application/octet-stream'' | Some m \<Rightarrow> m)
       (st_size file) (stem file) ''published''"

text \<open>
  Shorthand for the end of the loop body, from the state \<open>st6\<close> the update left: the
  events and the move of a completed file, the events of a rejected update, the counting
  of the file, and the two closing progress events.
\<close>

abbreviation completed :: "path \<Rightarrow> video_file \<Rightarrow> state \<Rightarrow> state" where
  "completed folder_path file st6 \<equiv>
     (if move_ok file then
        puts [Status (MovedProcessed (file_name file)),
              FileLocation (file_name file) (folder_path @ [''processed'', file_name file])]
          ((puts [Status (Successfully (file_name file)), FileStatus (file_name file) ''Completed''] st6)
             \<lparr>moves := moves st6 @ [(folder_path @ [file_name file],
                                      folder_path @ [''processed'', file_name file])]\<rparr>)
      else
        puts [Status (ProcessedMoveFailed (file_name file))]
          (puts [Status (Successfully (file_name file)), FileStatus (file_name file) ''Completed''] st6))"

abbreviation rejected :: "video_file \<Rightarrow> json \<Rightarrow> state \<Rightarrow> state" where
  "rejected file item_id st6 \<equiv>
     puts [Status (FailedUpdate item_id (file_name file)), FileStatus (file_name file) ''Error''] st6"

abbreviation counted :: "state \<Rightarrow> state \<Rightarrow> state" where
  "counted st6 st7 \<equiv> st7\<lparr>files_processed := files_processed st6 + 1\<rparr>"

abbreviation closing :: "nat \<Rightarrow> video_file \<Rightarrow> state \<Rightarrow> state \<Rightarrow> state" where
  "closing total_files file st6 st7 \<equiv>
     puts [OverallProgress (of_nat (files_processed st6 + 1) / of_nat total_files * 100),
           FileProgress (file_name file) 100]
       (counted st6 st7)"

text \<open>Sample inputs for the closed theorems below.\<close>

definition offline :: net where
  "offline k req = NoResponse 0"

definition no_guess :: "string \<Rightarrow> string option" where
  "no_guess name = None"

definition big_mov :: video_file where
  "big_mov = \<lparr>file_name = ''big.mov'', stem = ''big'', st_size = 5153960756, opens = True, move_ok = False\<rparr>"

definition huge_mkv :: video_file where
  "huge_mkv = \<lparr>file_name = ''huge.mkv'', stem = ''huge'', st_size = 6000000000, opens = True, move_ok = True\<rparr>"

text \<open>The values a per-file status may take, and the queues that hold no other.\<close>

definition allowed_statuses :: "string set" where
  "allowed_statuses = {''Pending'', ''Processing'', ''Too Large'', ''Error'', ''Upload Failed'',
      ''Completed''}"

definition statuses_ok :: "event list \<Rightarrow> bool" where
  "statuses_ok evs = (\<forall>n s. FileStatus n s \<in> set evs \<longrightarrow> s \<in> allowed_statuses)"

text \<open>Requests by kind.\<close>

definition is_create :: "request \<Rightarrow> bool" where
  "is_create req = (case op req of CreateItem t s \<Rightarrow> True | _ \<Rightarrow> False)"

definition is_presigned :: "request \<Rightarrow> bool" where
  "is_presigned req = (case op req of PresignedUrl i c p \<Rightarrow> True | _ \<Rightarrow> False)"

text \<open>A small file.\<close>

definition clip :: video_file where
  "clip = \<lparr>file_name = ''clip.mp4'', stem = ''clip'', st_size = 10, opens = True, move_ok = True\<rparr>"

text \<open>A service that answers every request with status 201 and an empty JSON list.\<close>

definition list_reply :: net where
  "list_reply k req = Response 201 False (Json (JArr []))"


definition other_avi :: video_file where
  "other_avi = \<lparr>file_name = ''other.avi'', stem = ''other'', st_size = 20, opens = True, move_ok = True\<rparr>"

text \<open>Events by kind.\<close>

definition is_status :: "event \<Rightarrow> bool" where
  "is_status ev = (case ev of Status m \<Rightarrow> True | _ \<Rightarrow> False)"

definition is_file_status :: "event \<Rightarrow> bool" where
  "is_file_status ev = (case ev of FileStatus n s \<Rightarrow> True | _ \<Rightarrow> False)"

text \<open>
  A service that creates the record \<^verbatim>\<open>7\<close> and hands out a credential, with the replies
  of the storage (by the number of requests issued before), of the fetch and of the
  update as given.
\<close>

definition service :: "(nat \<Rightarrow> reply) \<Rightarrow> reply \<Rightarrow> reply \<Rightarrow> net" where
  "service storage fetched updated k req =
     (case op req of
        CreateItem t s \<Rightarrow> Response 201 False (Json (JObj [(''id'', JStr ''7'')]))
      | PresignedUrl i c p \<Rightarrow>
          Response 201 False (Json (JObj [(''presigned_url'', JStr ''https://store.example/put''),
                                          (''media_url'', JStr ''https://media.example/clip.mp4'')]))
      | PutFile u p \<Rightarrow> storage k
      | FetchItem i \<Rightarrow> fetched
      | UpdateItem i u m n t s \<Rightarrow> updated)"

text \<open>The storage accepts the file and the record is found, but the update is answered with 500.\<close>

definition update_rejected :: net where
  "update_rejected =
     service (\<lambda>k. Response 200 False NotJson)
       (Response 200 False (Json (JObj [(''id'', JStr ''7'')])))
       (Response 500 False NotJson)"

text \<open>What one step added to the calls of the progress callback.\<close>

definition new_progress :: "state \<Rightarrow> state \<Rightarrow> (nat \<times> nat) list" where
  "new_progress st st' = drop (length (progress_calls st)) (progress_calls st')"

text \<open>The percentages of the per-file progress events, in order.\<close>

fun progress_values :: "event list \<Rightarrow> rat list" where
  "progress_values [] = []"
| "progress_values (ev # evs) =
     (case ev of FileProgress n p \<Rightarrow> p # progress_values evs | _ \<Rightarrow> progress_values evs)"

definition is_put :: "request \<Rightarrow> bool" where
  "is_put req = (case op req of PutFile u p \<Rightarrow> True | _ \<Rightarrow> False)"

text \<open>A record that is found when fetched, and an update that is accepted.\<close>

definition found :: reply where
  "found = Response 200 False (Json (JObj [(''id'', JStr ''7'')]))"

definition accepted :: reply where
  "accepted = Response 200 False NotJson"

text \<open>A storage that answers every attempt with 503, and one that answers with 403.\<close>

definition storage_busy :: net where
  "storage_busy = service (\<lambda>k. Response 503 False NotJson) found accepted"

definition upload_denied :: net where
  "upload_denied = service (\<lambda>k. Response 403 False NotJson) found accepted"

text \<open>
  A storage that answers the first attempt (the third request of the run) with 429 and a
  \<^verbatim>\<open>Retry-After\<close> header, and every later attempt with 200.
\<close>

definition throttled_once :: net where
  "throttled_once =
     service (\<lambda>k. if k = 2 then Response 429 True NotJson else Response 200 False NotJson) found accepted"

text \<open>
  A storage that answers the first attempt of a run (its third request) with 503 and
  every later one with 200, while the fetch that follows is answered with 500.
\<close>

definition flaky_storage :: net where
  "flaky_storage =
     service (\<lambda>k. if k = 2 then Response 503 False NotJson else Response 200 False NotJson)
       (Response 500 False NotJson) accepted"

text \<open>A storage that answers its first request with 503 and every later one with 200.\<close>

definition retry_once :: net where
  "retry_once k req = (if k = 0 then Response 503 False NotJson else Response 200 False NotJson)"

text \<open>A storage that accepts every upload.\<close>

definition storage_ok :: net where
  "storage_ok k req = Response 200 False NotJson"

text \<open>
  A service that creates the record \<^verbatim>\<open>7\<close> and answers every other request with status
  201 and an empty JSON list.
\<close>

definition credential_list_reply :: net where
  "credential_list_reply k req =
     (case op req of
        CreateItem t s \<Rightarrow> Response 201 False (Json (JObj [(''id'', JStr ''7'')]))
      | _ \<Rightarrow> Response 201 False (Json (JArr [])))"

section \<open>Basic facts\<close>

text \<open>The size test accepts exactly the sizes from 5153960756 bytes on.\<close>

lemma too_large_iff: "too_large n \<longleftrightarrow> 5153960756 \<le> n"
  unfolding too_large_def by (simp, arith)

lemma queue_puts [simp]: "queue (puts evs st) = queue st @ evs"
  and calls_puts [simp]: "calls (puts evs st) = calls st"
  and moves_puts [simp]: "moves (puts evs st) = moves st"
  and progress_calls_puts [simp]: "progress_calls (puts evs st) = progress_calls st"
  and files_processed_puts [simp]: "files_processed (puts evs st) = files_processed st"
  by (simp_all add: puts_def)

section \<open>Progress reports of a transfer\<close>

lemma counts_append: "counts b (xs @ ys) = counts b xs @ counts (b + sum_list xs) ys"
  by (induction xs arbitrary: b) (auto simp: add.assoc)

lemma counts_zero: "set reads \<subseteq> {0} \<Longrightarrow> counts b reads = []"
  by (induction reads arbitrary: b) auto

lemma counts_lower: "c \<in> set (counts b reads) \<Longrightarrow> b < c"
  by (induction reads arbitrary: b) (fastforce split: if_splits)+

lemma counts_upper: "c \<in> set (counts b reads) \<Longrightarrow> c \<le> b + sum_list reads"
  by (induction reads arbitrary: b) (fastforce split: if_splits)+

lemma sorted_counts: "sorted (counts b reads)"
  by (induction reads arbitrary: b) (auto dest: counts_lower simp: less_imp_le)

lemma report_Nil [simp]: "report name t [] st = st"
  by (simp add: report_def)

lemma report_append: "report name t (xs @ ys) st = report name t ys (report name t xs st)"
  by (simp add: report_def)

lemma report_fields [simp]:
  "calls (report name t cs st) = calls st"
  "moves (report name t cs st) = moves st"
  "files_processed (report name t cs st) = files_processed st"
  "progress_calls (report name t cs st) = progress_calls st @ map (\<lambda>c. (c, t)) cs"
  "queue (report name t cs st) = queue st @ concat (map (\<lambda>c. [FileProgress name (of_nat c / of_nat t
      * 100), FileSpeed name]) cs)"
  by (simp_all add: report_def)

lemma report_calls_update: "report name t cs (st\<lparr>calls := c\<rparr>) = (report name t cs st)\<lparr>calls := c\<rparr>"
  by (simp add: report_def)

lemma read_body_progress:
  "callback pf = progress_callback name \<Longrightarrow> total pf \<noteq> 0 \<or> counts (read_bytes pf) reads = [] \<Longrightarrow>
   read_body reads (Some pf) st =
     (None, Some (pf\<lparr>read_bytes := read_bytes pf + sum_list reads\<rparr>),
      report name (total pf) (counts (read_bytes pf) reads) st)"
proof (induction reads arbitrary: pf st)
  case Nil
  then show ?case by simp
next
  case (Cons n ns)
  show ?case
  proof (cases "n = 0")
    case True
    with Cons.prems Cons.IH [of pf st] show ?thesis
      by (simp add: ProgressFile_read_def)
  next
    case False
    with Cons.prems have t: "total pf \<noteq> 0" by auto
    let ?pf1 = "pf\<lparr>read_bytes := read_bytes pf + n\<rparr>"
    let ?st1 = "report name (total pf) [read_bytes pf + n] st"
    have step: "ProgressFile_read n pf st = (None, ?pf1, ?st1)"
      using False t Cons.prems(1)
      by (simp add: ProgressFile_read_def progress_callback_def Let_def put_def report_def)
    have "read_body ns (Some ?pf1) ?st1 =
            (None, Some (?pf1\<lparr>read_bytes := read_bytes ?pf1 + sum_list ns\<rparr>),
             report name (total ?pf1) (counts (read_bytes ?pf1) ns) ?st1)"
      by (rule Cons.IH) (use Cons.prems t in simp_all)
    with step False show ?thesis
      by (simp add: report_def add.assoc)
  qed
qed

lemma counts_attempt_reads: "set reads \<subseteq> {0} \<Longrightarrow> counts b (attempt_reads rep reads) = []"
  by (auto simp: attempt_reads_def split: reply.splits intro!: counts_zero dest: in_set_takeD)

lemma session_put_step:
  assumes cb: "callback pf = progress_callback name"
    and t: "total pf \<noteq> 0 \<or> set reads \<subseteq> {0}"
  shows "session_put net req reads r (Some pf) st =
     (if retried r (net (length (calls st)) req) then
        session_put net req reads (r - 1)
          (Some (pf\<lparr>read_bytes := read_bytes pf + sum_list (attempt_reads (net (length (calls st))
              req) reads)\<rparr>))
          ((report name (total pf) (counts (read_bytes pf) (attempt_reads (net (length (calls st))
              req) reads)) st)
             \<lparr>calls := calls st @ [req]\<rparr>)
      else
        (Inr (final_result r (net (length (calls st)) req)),
         Some (pf\<lparr>read_bytes := read_bytes pf + sum_list (attempt_reads (net (length (calls st))
             req) reads)\<rparr>),
         (report name (total pf) (counts (read_bytes pf) (attempt_reads (net (length (calls st))
             req) reads)) st)
           \<lparr>calls := calls st @ [req]\<rparr>))"
proof -
  have rb: "read_body (attempt_reads rep reads) (Some pf) st0 =
      (None, Some (pf\<lparr>read_bytes := read_bytes pf + sum_list (attempt_reads rep reads)\<rparr>),
       report name (total pf) (counts (read_bytes pf) (attempt_reads rep reads)) st0)" for rep st0
    by (rule read_body_progress [OF cb]) (use t counts_attempt_reads in blast)
  show ?thesis
  proof (cases "net (length (calls st)) req")
    case (NoResponse k)
    with rb [of "NoResponse k" "st\<lparr>calls := calls st @ [req]\<rparr>"] show ?thesis
      by (subst session_put.simps)
         (simp add: send_def attempt_reads_def retried_def final_result_def report_calls_update)
  next
    case (Response c ra b)
    with rb [of "Response c ra b" "st\<lparr>calls := calls st @ [req]\<rparr>"] show ?thesis
      by (subst session_put.simps)
         (simp add: send_def attempt_reads_def retried_def final_result_def report_calls_update)
  qed
qed

lemma session_put_progress:
  "callback pf = progress_callback name \<Longrightarrow> total pf \<noteq> 0 \<or> set reads \<subseteq> {0} \<Longrightarrow>
   \<exists>n rest res.
     session_put net req reads r (Some pf) st =
       (Inr res,
        Some (pf\<lparr>read_bytes := read_bytes pf + sum_list (attempt_reads (net (length (calls st)) req)
            reads @ rest)\<rparr>),
        (report name (total pf) (counts (read_bytes pf) (attempt_reads (net (length (calls st)) req)
            reads @ rest)) st)
        \<lparr>calls := calls st @ replicate n req\<rparr>)
     \<and> 1 \<le> n \<and> n \<le> r + 1
     \<and> (retried r (net (length (calls st)) req) \<longrightarrow> 2 \<le> n)
     \<and> (\<not> retried r (net (length (calls st)) req) \<longrightarrow>
          n = 1 \<and> rest = [] \<and> res = final_result r (net (length (calls st)) req))"
proof (induction r arbitrary: pf st)
  case 0
  show ?case
    by (intro exI [of _ 1] exI [of _ "[]"] exI [of _ "final_result 0 (net (length (calls st)) req)"])
       (simp add: session_put_step [OF 0] retried_def)
next
  case (Suc r)
  let ?first = "attempt_reads (net (length (calls st)) req) reads"
  let ?pf1 = "pf\<lparr>read_bytes := read_bytes pf + sum_list ?first\<rparr>"
  let ?st1 = "(report name (total pf) (counts (read_bytes pf) ?first) st)\<lparr>calls := calls st @ [req]\<rparr>"
  show ?case
  proof (cases "retried (Suc r) (net (length (calls st)) req)")
    case False
    then show ?thesis
      by (intro exI [of _ 1] exI [of _ "[]"] exI [of _ "final_result (Suc r) (net (length (calls st)) req)"])
         (simp add: session_put_step [OF Suc.prems])
  next
    case True
    have "callback ?pf1 = progress_callback name" "total ?pf1 \<noteq> 0 \<or> set reads \<subseteq> {0}"
      using Suc.prems by simp_all
    from Suc.IH [OF this, of ?st1]
    obtain n rest res where rec:
      "session_put net req reads r (Some ?pf1) ?st1 =
         (Inr res,
          Some (?pf1\<lparr>read_bytes := read_bytes ?pf1
                   + sum_list (attempt_reads (net (length (calls ?st1)) req) reads @ rest)\<rparr>),
          (report name (total ?pf1)
             (counts (read_bytes ?pf1) (attempt_reads (net (length (calls ?st1)) req) reads @ rest)) ?st1)
          \<lparr>calls := calls ?st1 @ replicate n req\<rparr>)" and n: "1 \<le> n" "n \<le> r + 1"
      by blast
    let ?next = "attempt_reads (net (length (calls ?st1)) req) reads @ rest"
    have "session_put net req reads (Suc r) (Some pf) st =
         (Inr res, Some (pf\<lparr>read_bytes := read_bytes pf + sum_list (?first @ ?next)\<rparr>),
          (report name (total pf) (counts (read_bytes pf) (?first @ ?next)) st)\<lparr>calls := calls st @
              replicate (Suc n) req\<rparr>)"
      using True rec
      by (simp add: session_put_step [OF Suc.prems] counts_append report_def add.assoc)
    with n True show ?thesis
      by (intro exI [of _ "Suc n"] exI [of _ ?next] exI [of _ res]) simp
  qed
qed

section \<open>What each operation does to the state\<close>

text \<open>
  A feed-client call adds its one request to the list of requests and changes nothing
  else. An upload with the callback of the pipeline never raises, makes at most one more
  attempt than it has retries, and adds only progress reports to the queue.
\<close>

lemma create_item_state:
  "create_item net api_url api_key title status st = (r, st1)
   \<Longrightarrow> st1 = st\<lparr>calls := calls st @ [create_item_request api_url api_key title status]\<rparr>"
  by (auto simp: create_item_def send_def split: reply.splits body.splits sum.splits if_splits)

lemma generate_presigned_url_state:
  "generate_presigned_url net api_url api_key item_id category file_path st = (r, st1)
   \<Longrightarrow> st1 = st\<lparr>calls := calls st @ [generate_presigned_url_request api_url api_key item_id category
       file_path]\<rparr>"
  by (auto simp: generate_presigned_url_def send_def split: reply.splits body.splits sum.splits if_splits)

lemma fetch_item_state:
  "fetch_item net api_url api_key item_id st = (r, st1)
   \<Longrightarrow> st1 = st\<lparr>calls := calls st @ [fetch_item_request api_url api_key item_id]\<rparr>"
  by (auto simp: fetch_item_def send_def split: reply.splits body.splits if_splits)

lemma update_item_with_attachment_state:
  "update_item_with_attachment net api_url api_key item_id media_url mime_type size_in_bytes title
      status st = (r, st1)
   \<Longrightarrow> st1 = st\<lparr>calls := calls st @ [update_item_with_attachment_request api_url api_key item_id
       media_url mime_type size_in_bytes title status]\<rparr>"
  by (auto simp: update_item_with_attachment_def send_def split: reply.splits if_splits)

lemma chunk_lens_0 [simp]: "chunk_lens 0 blocksize = []"
  by (simp add: chunk_lens.simps)

lemma upload_file_state:
  assumes "upload_file net blocksize presigned_url file_path file (Some (progress_callback name)) r
      st = (res, st1)"
  shows "\<exists>n rds ok. res = Inr ok \<and> n \<le> r + 1
     \<and> st1 = (report name (st_size file) (counts 0 rds) st)\<lparr>calls := calls st @ replicate n
         (upload_file_request presigned_url file_path)\<rparr>"
proof (cases "opens file")
  case False
  with assms have "res = Inr False" "st1 = st" by (simp_all add: upload_file_def)
  then show ?thesis
    by (intro exI [of _ 0] exI [of _ "[]"] exI [of _ False]) simp
next
  case True
  let ?pf = "ProgressFile_init (st_size file) (progress_callback name)"
  have "callback ?pf = progress_callback name"
    and "total ?pf \<noteq> 0 \<or> set (file_reads (st_size file) blocksize) \<subseteq> {0}"
    by (auto simp: ProgressFile_init_def file_reads_def)
  from session_put_progress [OF this, of net "upload_file_request presigned_url file_path" r st]
  obtain n rest out f1 where
    sp: "session_put net (upload_file_request presigned_url file_path) (file_reads (st_size file)
        blocksize) r (Some ?pf) st =
       (Inr out, f1,
        (report name (st_size file)
           (counts 0 (attempt_reads (net (length (calls st)) (upload_file_request presigned_url file_path))
                        (file_reads (st_size file) blocksize) @ rest)) st)
        \<lparr>calls := calls st @ replicate n (upload_file_request presigned_url file_path)\<rparr>)"
    and n: "n \<le> r + 1"
    by (auto simp: ProgressFile_init_def)
  from assms True sp n show ?thesis
    by (cases out) (auto simp: upload_file_def)
qed

section \<open>The loop body, stage by stage\<close>

text \<open>
  For a file within the size limit, the result of the loop body once the outcomes of the
  calls it makes are known, and a case rule that goes through all of them.
\<close>

lemma process_file_create_raises:
  assumes "\<not> too_large (st_size file)"
    and "create_step net microfeed_url api_key total_files idx file st = (Inl e, st2)"
  shows "process_file net blocksize guess_type folder_path api_key microfeed_url total_files idx file st =
     (Some e, st2)"
  using assms by (simp add: process_file_def Let_def)

lemma process_file_create_failed:
  assumes "\<not> too_large (st_size file)"
    and "create_step net microfeed_url api_key total_files idx file st = (Inr None, st2)"
  shows "process_file net blocksize guess_type folder_path api_key microfeed_url total_files idx file st =
     (None, puts [Status (SkippingCreate (file_name file)), FileStatus (file_name file) ''Error''] st2)"
  using assms by (simp add: process_file_def Let_def)

lemma process_file_presign_raises:
  assumes "\<not> too_large (st_size file)"
    and "create_step net microfeed_url api_key total_files idx file st = (Inr (Some item_id), st2)"
    and "credential_step net microfeed_url api_key folder_path file item_id st2 = (Inl e, st3)"
  shows "process_file net blocksize guess_type folder_path api_key microfeed_url total_files idx file st =
     (Some e, st3)"
  using assms by (simp add: process_file_def Let_def)

lemma process_file_presign_failed:
  assumes "\<not> too_large (st_size file)"
    and "create_step net microfeed_url api_key total_files idx file st = (Inr (Some item_id), st2)"
    and "credential_step net microfeed_url api_key folder_path file item_id st2 = (Inr None, st3)"
  shows "process_file net blocksize guess_type folder_path api_key microfeed_url total_files idx file st =
     (None, puts [Status (SkippingPresigned (file_name file)), FileStatus (file_name file) ''Error''] st3)"
  using assms by (simp add: process_file_def Let_def)

lemma process_file_upload_raises:
  assumes "\<not> too_large (st_size file)"
    and "create_step net microfeed_url api_key total_files idx file st = (Inr (Some item_id), st2)"
    and "credential_step net microfeed_url api_key folder_path file item_id st2 = (Inr (Some
        (presigned_url, media_url)), st3)"
    and "upload_step net blocksize folder_path file presigned_url media_url st3 = (Inl e, st4)"
  shows "process_file net blocksize guess_type folder_path api_key microfeed_url total_files idx file st =
     (Some e, st4)"
  using assms by (simp add: process_file_def Let_def)

lemma process_file_upload_failed:
  assumes "\<not> too_large (st_size file)"
    and "create_step net microfeed_url api_key total_files idx file st = (Inr (Some item_id), st2)"
    and "credential_step net microfeed_url api_key folder_path file item_id st2 = (Inr (Some
        (presigned_url, media_url)), st3)"
    and "upload_step net blocksize folder_path file presigned_url media_url st3 = (Inr False, st4)"
  shows "process_file net blocksize guess_type folder_path api_key microfeed_url total_files idx file st =
     (None, puts [Status (FailedUpload (file_name file)), FileStatus (file_name file) ''Upload Failed''] st4)"
  using assms by (simp add: process_file_def Let_def)

lemma process_file_fetch_failed:
  assumes "\<not> too_large (st_size file)"
    and "create_step net microfeed_url api_key total_files idx file st = (Inr (Some item_id), st2)"
    and "credential_step net microfeed_url api_key folder_path file item_id st2 = (Inr (Some
        (presigned_url, media_url)), st3)"
    and "upload_step net blocksize folder_path file presigned_url media_url st3 = (Inr True, st4)"
    and "fetch_item net microfeed_url api_key item_id st4 = (item_data, st5)"
    and "\<not> (case item_data of None \<Rightarrow> False | Some d \<Rightarrow> truthy d)"
  shows "process_file net blocksize guess_type folder_path api_key microfeed_url total_files idx file st =
     (None, puts [Status (FailedFetch item_id), FileStatus (file_name file) ''Error''] st5)"
  using assms by (simp add: process_file_def Let_def)

lemma process_file_update_failed:
  assumes "\<not> too_large (st_size file)"
    and "create_step net microfeed_url api_key total_files idx file st = (Inr (Some item_id), st2)"
    and "credential_step net microfeed_url api_key folder_path file item_id st2 = (Inr (Some
        (presigned_url, media_url)), st3)"
    and "upload_step net blocksize folder_path file presigned_url media_url st3 = (Inr True, st4)"
    and "fetch_item net microfeed_url api_key item_id st4 = (item_data, st5)"
    and "(case item_data of None \<Rightarrow> False | Some d \<Rightarrow> truthy d)"
    and "update_step net microfeed_url api_key guess_type file item_id media_url st5 = (False, st6)"
    and "total_files \<noteq> 0"
  shows "process_file net blocksize guess_type folder_path api_key microfeed_url total_files idx file st =
     (None, closing total_files file st6 (rejected file item_id st6))"
  using assms by (simp add: process_file_def Let_def)

lemma process_file_completed:
  assumes "\<not> too_large (st_size file)"
    and "create_step net microfeed_url api_key total_files idx file st = (Inr (Some item_id), st2)"
    and "credential_step net microfeed_url api_key folder_path file item_id st2 = (Inr (Some
        (presigned_url, media_url)), st3)"
    and "upload_step net blocksize folder_path file presigned_url media_url st3 = (Inr True, st4)"
    and "fetch_item net microfeed_url api_key item_id st4 = (item_data, st5)"
    and "(case item_data of None \<Rightarrow> False | Some d \<Rightarrow> truthy d)"
    and "update_step net microfeed_url api_key guess_type file item_id media_url st5 = (True, st6)"
    and "total_files \<noteq> 0"
  shows "process_file net blocksize guess_type folder_path api_key microfeed_url total_files idx file st =
     (None, closing total_files file st6 (completed folder_path file st6))"
  using assms by (simp add: process_file_def Let_def)

lemma process_file_finalized:
  assumes "\<not> too_large (st_size file)"
    and "create_step net microfeed_url api_key total_files idx file st = (Inr (Some item_id), st2)"
    and "credential_step net microfeed_url api_key folder_path file item_id st2 = (Inr (Some
        (presigned_url, media_url)), st3)"
    and "upload_step net blocksize folder_path file presigned_url media_url st3 = (Inr True, st4)"
    and "fetch_item net microfeed_url api_key item_id st4 = (item_data, st5)"
    and "(case item_data of None \<Rightarrow> False | Some d \<Rightarrow> truthy d)"
    and "update_step net microfeed_url api_key guess_type file item_id media_url st5 = (update_success, st6)"
  shows "process_file net blocksize guess_type folder_path api_key microfeed_url total_files idx file st =
     (if total_files = 0 then (Some ZeroDivisionError, counted st6 (if update_success then completed
         folder_path file st6 else rejected file item_id st6)) else (None, closing total_files file
         st6 (if update_success then completed folder_path file st6 else rejected file item_id
         st6)))"
  using assms by (simp add: process_file_def Let_def)

lemma process_file_cases [consumes 1, case_names create_raises create_failed presign_raises
    presign_failed upload_failed fetch_failed finalized]:
  assumes small: "\<not> too_large (st_size file)"
    and create_raises: "\<And>e st2.
        create_step net microfeed_url api_key total_files idx file st = (Inl e, st2) \<Longrightarrow>
        st2 = (puts (announcement file idx total_files) st)\<lparr>calls := calls st @ [create_request
            microfeed_url api_key file]\<rparr> \<Longrightarrow>
        P (Some e, st2)"
    and create_failed: "\<And>st2.
        create_step net microfeed_url api_key total_files idx file st = (Inr None, st2) \<Longrightarrow>
        st2 = (puts (announcement file idx total_files) st)\<lparr>calls := calls st @ [create_request
            microfeed_url api_key file]\<rparr> \<Longrightarrow>
        P (None, puts [Status (SkippingCreate (file_name file)), FileStatus (file_name file) ''Error''] st2)"
    and presign_raises: "\<And>item_id st2 e st3.
        create_step net microfeed_url api_key total_files idx file st = (Inr (Some item_id), st2) \<Longrightarrow>
        st2 = (puts (announcement file idx total_files) st)\<lparr>calls := calls st @ [create_request
            microfeed_url api_key file]\<rparr> \<Longrightarrow>
        credential_step net microfeed_url api_key folder_path file item_id st2 = (Inl e, st3) \<Longrightarrow>
        st3 = (puts [FileItemId (file_name file) item_id] st2)\<lparr>calls := calls st2 @
            [credential_request microfeed_url api_key folder_path file item_id]\<rparr> \<Longrightarrow>
        P (Some e, st3)"
    and presign_failed: "\<And>item_id st2 st3.
        create_step net microfeed_url api_key total_files idx file st = (Inr (Some item_id), st2) \<Longrightarrow>
        st2 = (puts (announcement file idx total_files) st)\<lparr>calls := calls st @ [create_request
            microfeed_url api_key file]\<rparr> \<Longrightarrow>
        credential_step net microfeed_url api_key folder_path file item_id st2 = (Inr None, st3) \<Longrightarrow>
        st3 = (puts [FileItemId (file_name file) item_id] st2)\<lparr>calls := calls st2 @
            [credential_request microfeed_url api_key folder_path file item_id]\<rparr> \<Longrightarrow>
        P (None, puts [Status (SkippingPresigned (file_name file)), FileStatus (file_name file)
            ''Error''] st3)"
    and upload_failed: "\<And>item_id st2 presigned_url media_url st3 st4 rds k.
        create_step net microfeed_url api_key total_files idx file st = (Inr (Some item_id), st2) \<Longrightarrow>
        st2 = (puts (announcement file idx total_files) st)\<lparr>calls := calls st @ [create_request
            microfeed_url api_key file]\<rparr> \<Longrightarrow>
        credential_step net microfeed_url api_key folder_path file item_id st2 = (Inr (Some
            (presigned_url, media_url)), st3) \<Longrightarrow>
        st3 = (puts [FileItemId (file_name file) item_id] st2)\<lparr>calls := calls st2 @
            [credential_request microfeed_url api_key folder_path file item_id]\<rparr> \<Longrightarrow>
        upload_step net blocksize folder_path file presigned_url media_url st3 = (Inr False, st4) \<Longrightarrow>
        st4 = (report (file_name file) (st_size file) (counts 0 rds) (puts [FileApiLink (file_name
            file) media_url] st3))\<lparr>calls := calls st3 @ replicate k (upload_request folder_path file
            presigned_url)\<rparr> \<Longrightarrow>
        k \<le> 4 \<Longrightarrow>
        P (None, puts [Status (FailedUpload (file_name file)), FileStatus (file_name file)
            ''Upload Failed''] st4)"
    and fetch_failed: "\<And>item_id st2 presigned_url media_url st3 st4 rds k item_data st5.
        create_step net microfeed_url api_key total_files idx file st = (Inr (Some item_id), st2) \<Longrightarrow>
        st2 = (puts (announcement file idx total_files) st)\<lparr>calls := calls st @ [create_request
            microfeed_url api_key file]\<rparr> \<Longrightarrow>
        credential_step net microfeed_url api_key folder_path file item_id st2 = (Inr (Some
            (presigned_url, media_url)), st3) \<Longrightarrow>
        st3 = (puts [FileItemId (file_name file) item_id] st2)\<lparr>calls := calls st2 @
            [credential_request microfeed_url api_key folder_path file item_id]\<rparr> \<Longrightarrow>
        upload_step net blocksize folder_path file presigned_url media_url st3 = (Inr True, st4) \<Longrightarrow>
        st4 = (report (file_name file) (st_size file) (counts 0 rds) (puts [FileApiLink (file_name
            file) media_url] st3))\<lparr>calls := calls st3 @ replicate k (upload_request folder_path file
            presigned_url)\<rparr> \<Longrightarrow>
        k \<le> 4 \<Longrightarrow>
        fetch_item net microfeed_url api_key item_id st4 = (item_data, st5) \<Longrightarrow>
        st5 = st4\<lparr>calls := calls st4 @ [fetch_item_request microfeed_url api_key item_id]\<rparr> \<Longrightarrow>
        \<not> (case item_data of None \<Rightarrow> False | Some d \<Rightarrow> truthy d) \<Longrightarrow>
        P (None, puts [Status (FailedFetch item_id), FileStatus (file_name file) ''Error''] st5)"
    and finalized: "\<And>item_id st2 presigned_url media_url st3 st4 rds k item_data st5 update_success st6.
        create_step net microfeed_url api_key total_files idx file st = (Inr (Some item_id), st2) \<Longrightarrow>
        st2 = (puts (announcement file idx total_files) st)\<lparr>calls := calls st @ [create_request
            microfeed_url api_key file]\<rparr> \<Longrightarrow>
        credential_step net microfeed_url api_key folder_path file item_id st2 = (Inr (Some
            (presigned_url, media_url)), st3) \<Longrightarrow>
        st3 = (puts [FileItemId (file_name file) item_id] st2)\<lparr>calls := calls st2 @
            [credential_request microfeed_url api_key folder_path file item_id]\<rparr> \<Longrightarrow>
        upload_step net blocksize folder_path file presigned_url media_url st3 = (Inr True, st4) \<Longrightarrow>
        st4 = (report (file_name file) (st_size file) (counts 0 rds) (puts [FileApiLink (file_name
            file) media_url] st3))\<lparr>calls := calls st3 @ replicate k (upload_request folder_path file
            presigned_url)\<rparr> \<Longrightarrow>
        k \<le> 4 \<Longrightarrow>
        fetch_item net microfeed_url api_key item_id st4 = (item_data, st5) \<Longrightarrow>
        st5 = st4\<lparr>calls := calls st4 @ [fetch_item_request microfeed_url api_key item_id]\<rparr> \<Longrightarrow>
        (case item_data of None \<Rightarrow> False | Some d \<Rightarrow> truthy d) \<Longrightarrow>
        update_step net microfeed_url api_key guess_type file item_id media_url st5 = (update_success, st6) \<Longrightarrow>
        st6 = st5\<lparr>calls := calls st5 @ [update_request microfeed_url api_key guess_type file item_id
            media_url]\<rparr> \<Longrightarrow>
        P (if total_files = 0 then (Some ZeroDivisionError, counted st6 (if update_success then
            completed folder_path file st6 else rejected file item_id st6)) else (None, closing
            total_files file st6 (if update_success then completed folder_path file st6 else
            rejected file item_id st6)))"
  shows "P (process_file net blocksize guess_type folder_path api_key microfeed_url total_files idx file st)"
proof -
  obtain r1 st2 where c: "create_step net microfeed_url api_key total_files idx file st = (r1, st2)"
    by (cases "create_step net microfeed_url api_key total_files idx file st")
  have s2: "st2 = (puts (announcement file idx total_files) st)\<lparr>calls := calls st @ [create_request
      microfeed_url api_key file]\<rparr>"
    using create_item_state [OF c] by simp
  show ?thesis
  proof (cases r1)
    case (Inl e)
    with c have c': "create_step net microfeed_url api_key total_files idx file st = (Inl e, st2)" by simp
    from create_raises [OF c' s2] show ?thesis
      unfolding process_file_create_raises [OF small c'] .
  next
    case (Inr o1)
    show ?thesis
    proof (cases o1)
      case None
      with Inr c have c': "create_step net microfeed_url api_key total_files idx file st = (Inr
          None, st2)" by simp
      from create_failed [OF c' s2] show ?thesis
        unfolding process_file_create_failed [OF small c'] .
    next
      case (Some item_id)
      with Inr c have c': "create_step net microfeed_url api_key total_files idx file st = (Inr
          (Some item_id), st2)" by simp
      obtain r2 st3 where p: "credential_step net microfeed_url api_key folder_path file item_id st2
          = (r2, st3)"
        by (cases "credential_step net microfeed_url api_key folder_path file item_id st2")
      have s3: "st3 = (puts [FileItemId (file_name file) item_id] st2)\<lparr>calls := calls st2 @
          [credential_request microfeed_url api_key folder_path file item_id]\<rparr>"
        using generate_presigned_url_state [OF p] by simp
      show ?thesis
      proof (cases r2)
        case (Inl e)
        with p have p': "credential_step net microfeed_url api_key folder_path file item_id st2 =
            (Inl e, st3)" by simp
        from presign_raises [OF c' s2 p' s3] show ?thesis
          unfolding process_file_presign_raises [OF small c' p'] .
      next
        case (Inr o2)
        show ?thesis
        proof (cases o2)
          case None
          with Inr p have p': "credential_step net microfeed_url api_key folder_path file item_id
              st2 = (Inr None, st3)" by simp
          from presign_failed [OF c' s2 p' s3] show ?thesis
            unfolding process_file_presign_failed [OF small c' p'] .
        next
          case (Some pm)
          obtain presigned_url media_url where pm: "pm = (presigned_url, media_url)" by (cases pm)
          with Some Inr p have p': "credential_step net microfeed_url api_key folder_path file
              item_id st2 = (Inr (Some (presigned_url, media_url)), st3)" by simp
          obtain r3 st4 where u: "upload_step net blocksize folder_path file presigned_url media_url
              st3 = (r3, st4)"
            by (cases "upload_step net blocksize folder_path file presigned_url media_url st3")
          from upload_file_state [OF u] obtain k rds ok where
            r3: "r3 = Inr ok" and k: "k \<le> 4" and s4: "st4 = (report (file_name file) (st_size file)
                (counts 0 rds) (puts [FileApiLink (file_name file) media_url] st3))\<lparr>calls := calls
                st3 @ replicate k (upload_request folder_path file presigned_url)\<rparr>"
            by (auto simp: report_def puts_def)
          show ?thesis
          proof (cases ok)
            case False
            with r3 u have u': "upload_step net blocksize folder_path file presigned_url media_url
                st3 = (Inr False, st4)" by simp
            from upload_failed [OF c' s2 p' s3 u' s4 k] show ?thesis
              unfolding process_file_upload_failed [OF small c' p' u'] .
          next
            case True
            with r3 u have u': "upload_step net blocksize folder_path file presigned_url media_url
                st3 = (Inr True, st4)" by simp
            obtain item_data st5 where f: "fetch_item net microfeed_url api_key item_id st4 =
                (item_data, st5)"
              by (cases "fetch_item net microfeed_url api_key item_id st4")
            note s5 = fetch_item_state [OF f]
            show ?thesis
            proof (cases "(case item_data of None \<Rightarrow> False | Some d \<Rightarrow> truthy d)")
              case False
              from fetch_failed [OF c' s2 p' s3 u' s4 k f s5 False] show ?thesis
                unfolding process_file_fetch_failed [OF small c' p' u' f False] .
            next
              case True
              obtain update_success st6 where d: "update_step net microfeed_url api_key guess_type
                  file item_id media_url st5 = (update_success, st6)"
                by (cases "update_step net microfeed_url api_key guess_type file item_id media_url st5")
              note s6 = update_item_with_attachment_state [OF d]
              from finalized [OF c' s2 p' s3 u' s4 k f s5 True d s6] show ?thesis
                unfolding process_file_finalized [where guess_type = guess_type, OF small c' p' u' f True d] .
            qed
          qed
        qed
      qed
    qed
  qed
qed

section \<open>Files over the size limit\<close>

text \<open>
  C1. A file over the limit is not always moved: \<^verbatim>\<open>shutil.move\<close> sits in a
  \<^verbatim>\<open>try\<close> whose handler reports the status \<^verbatim>\<open>"Error"\<close> and leaves the file where it
  is. Here the move of a file of 5153960756 bytes fails: nothing is moved and the last
  per-file status is \<^verbatim>\<open>"Error"\<close>, not \<^verbatim>\<open>"Too Large"\<close>.
\<close>

theorem too_large_move_fails_counterexample:
  "too_large (st_size big_mov)
   \<and> moves (snd (process_file offline 8192 no_guess [''videos''] ''key'' ''https://feed.example'' 1
       0 big_mov initial_state)) = []
   \<and> queue (snd (process_file offline 8192 no_guess [''videos''] ''key'' ''https://feed.example'' 1
       0 big_mov initial_state))
      = [Status (ProcessingFile ''big.mov'' 1 1), FileStatus ''big.mov'' ''Processing'',
         Status (TooLargeMoveFailed ''big.mov''), FileStatus ''big.mov'' ''Error'']"
  by (simp add: process_file_def Let_def big_mov_def too_large_def initial_state_def puts_def)

text \<open>
  C1, as the code has it. For a file over the limit the loop body issues no request at
  all and raises nothing. When the move completes, the file goes from
  \<^verbatim>\<open>folder/name\<close> to \<^verbatim>\<open>folder/too_large/name\<close> and the events are the announcement,
  \<^verbatim>\<open>"Processing"\<close>, the too-large text, \<^verbatim>\<open>"Too Large"\<close> and the new location. When
  the move fails, nothing is moved and the events end with the failure text and
  \<^verbatim>\<open>"Error"\<close>.
\<close>

theorem too_large_file_relocated:
  assumes "too_large (st_size file)"
  shows "fst (process_file net blocksize guess_type folder_path api_key microfeed_url total_files
      idx file st) = None
    \<and> calls (snd (process_file net blocksize guess_type folder_path api_key microfeed_url
        total_files idx file st)) = calls st
    \<and> (move_ok file \<longrightarrow>
          moves (snd (process_file net blocksize guess_type folder_path api_key microfeed_url
              total_files idx file st))
            = moves st @ [(folder_path @ [file_name file], folder_path @ [''too_large'', file_name file])]
        \<and> new_events st (snd (process_file net blocksize guess_type folder_path api_key
            microfeed_url total_files idx file st))
            = [Status (ProcessingFile (file_name file) (idx + 1) total_files),
               FileStatus (file_name file) ''Processing'',
               Status (TooLargeMoved (file_name file)),
               FileStatus (file_name file) ''Too Large'',
               FileLocation (file_name file) (folder_path @ [''too_large'', file_name file])])
    \<and> (\<not> move_ok file \<longrightarrow>
          moves (snd (process_file net blocksize guess_type folder_path api_key microfeed_url
              total_files idx file st))
            = moves st
        \<and> new_events st (snd (process_file net blocksize guess_type folder_path api_key
            microfeed_url total_files idx file st))
            = [Status (ProcessingFile (file_name file) (idx + 1) total_files),
               FileStatus (file_name file) ''Processing'',
               Status (TooLargeMoveFailed (file_name file)),
               FileStatus (file_name file) ''Error''])"
  using assms by (simp add: process_file_def Let_def new_events_def)

text \<open>A file of 6000000000 bytes whose move completes.\<close>

theorem too_large_file_relocated_witness:
  "too_large (st_size huge_mkv)
   \<and> calls (snd (process_file offline 8192 no_guess [''videos''] ''key'' ''https://feed.example'' 1
       0 huge_mkv initial_state)) = []
   \<and> moves (snd (process_file offline 8192 no_guess [''videos''] ''key'' ''https://feed.example'' 1
       0 huge_mkv initial_state))
      = [([''videos'', ''huge.mkv''], [''videos'', ''too_large'', ''huge.mkv''])]"
proof -
  have big: "too_large (st_size huge_mkv)"
    by (simp add: huge_mkv_def too_large_def)
  from too_large_file_relocated [OF big, of offline 8192 no_guess "[''videos'']" "''key''"
      "''https://feed.example''" 1 0 initial_state]
  show ?thesis using big by (simp add: huge_mkv_def initial_state_def)
qed

section \<open>Per-file status values\<close>

lemma statuses_ok_append: "statuses_ok (xs @ ys) \<longleftrightarrow> statuses_ok xs \<and> statuses_ok ys"
  by (auto simp: statuses_ok_def)

lemma statuses_ok_progress:
  "statuses_ok (concat (map (\<lambda>c. [FileProgress name (f c), FileSpeed name]) cs))"
  by (auto simp: statuses_ok_def)

lemma statuses_ok_Nil [simp]: "statuses_ok []"
  by (simp add: statuses_ok_def)

lemma statuses_ok_Cons [simp]:
  "statuses_ok (ev # evs) \<longleftrightarrow> (case ev of FileStatus n s \<Rightarrow> s \<in> allowed_statuses | _ \<Rightarrow> True) \<and> statuses_ok evs"
  by (auto simp: statuses_ok_def split: event.splits)

lemma allowed_literals [simp]:
  "''Processing'' \<in> allowed_statuses" "''Too Large'' \<in> allowed_statuses" "''Error'' \<in> allowed_statuses"
  "''Upload Failed'' \<in> allowed_statuses" "''Completed'' \<in> allowed_statuses"
  by (simp_all add: allowed_statuses_def)

lemma process_file_statuses:
  assumes ok: "statuses_ok (queue st)"
  shows "statuses_ok (queue (snd (process_file net blocksize guess_type folder_path api_key
      microfeed_url total_files idx file st)))"
proof (cases "too_large (st_size file)")
  case True
  with ok show ?thesis
    by (simp add: process_file_def Let_def statuses_ok_append)
next
  case False
  then show ?thesis
    by (cases rule: process_file_cases [where P = "\<lambda>res. statuses_ok (queue (snd res))"])
       (use ok in \<open>simp_all add: statuses_ok_append statuses_ok_progress\<close>)
qed

lemma process_loop_statuses:
  "statuses_ok (queue st) \<Longrightarrow>
   statuses_ok (queue (snd (process_loop net blocksize guess_type folder_path api_key microfeed_url
       total_files idx files st)))"
proof (induction files arbitrary: idx st)
  case Nil
  then show ?case by simp
next
  case (Cons f fs)
  obtain e st1 where pf: "process_file net blocksize guess_type folder_path api_key microfeed_url
      total_files idx f st = (e, st1)"
    by (cases "process_file net blocksize guess_type folder_path api_key microfeed_url total_files idx f st")
  with process_file_statuses [OF Cons.prems, of net blocksize guess_type folder_path api_key
      microfeed_url total_files idx f]
  have ok1: "statuses_ok (queue st1)" by simp
  show ?case
  proof (cases e)
    case None
    with Cons.IH [OF ok1] pf show ?thesis by simp
  next
    case (Some a)
    with ok1 pf show ?thesis by simp
  qed
qed

text \<open>
  C9. Whatever the network answers and whatever the files are, every per-file status the
  pipeline puts on the queue is one of \<^verbatim>\<open>Pending\<close>, \<^verbatim>\<open>Processing\<close>, \<^verbatim>\<open>Too Large\<close>,
  \<^verbatim>\<open>Error\<close>, \<^verbatim>\<open>Upload Failed\<close> and \<^verbatim>\<open>Completed\<close>. This holds for the queue of a run
  that an uncaught exception ended as well.
\<close>

theorem file_status_values:
  "FileStatus n s \<in> set (queue (snd (process_files net blocksize guess_type folder_path api_key
      microfeed_url video_files)))
   \<Longrightarrow> s \<in> allowed_statuses"
proof -
  have "statuses_ok (queue (snd (process_files net blocksize guess_type folder_path api_key
      microfeed_url video_files)))"
  proof (cases "video_files = []")
    case True
    then show ?thesis
      by (simp add: process_files_def initial_state_def)
  next
    case False
    have "statuses_ok (queue (puts [Status (Scanning folder_path)] initial_state))"
      by (simp add: initial_state_def)
    from process_loop_statuses [OF this, of net blocksize guess_type folder_path api_key
        microfeed_url "length video_files" 0 video_files]
    show ?thesis using False
      by (auto simp: process_files_def Let_def statuses_ok_append split: prod.splits option.splits)
  qed
  then show "FileStatus n s \<in> set (queue (snd (process_files net blocksize guess_type folder_path
      api_key microfeed_url video_files)))
   \<Longrightarrow> s \<in> allowed_statuses"
    by (simp add: statuses_ok_def)
qed

text \<open>With the network down, the one file of the run ends with the status \<^verbatim>\<open>Error\<close>.\<close>

theorem file_status_values_witness:
  "FileStatus ''clip.mp4'' ''Error'' \<in> set (queue (snd (process_files offline 8192 no_guess
      [''videos''] ''key'' ''https://feed.example'' [clip])))
   \<and> ''Error'' \<in> allowed_statuses"
proof -
  have ev: "FileStatus ''clip.mp4'' ''Error'' \<in> set (queue (snd (process_files offline 8192 no_guess
      [''videos''] ''key'' ''https://feed.example'' [clip])))"
    by (simp add: process_files_def process_file_def Let_def clip_def too_large_def offline_def
        create_item_def create_item_request_def send_def puts_def initial_state_def)
  from file_status_values [OF ev] ev show ?thesis by simp
qed

section \<open>Record creation\<close>

lemma request_kinds [simp]:
  "is_create (create_item_request u k t s)"
  "\<not> is_create (generate_presigned_url_request u k i c p)"
  "\<not> is_create (upload_file_request pu p)"
  "\<not> is_create (fetch_item_request u k i)"
  "\<not> is_create (update_item_with_attachment_request u k i m mt n t s)"
  "\<not> is_presigned (create_item_request u k t s)"
  "is_presigned (generate_presigned_url_request u k i c p)"
  "\<not> is_presigned (upload_file_request pu p)"
  "\<not> is_presigned (fetch_item_request u k i)"
  "\<not> is_presigned (update_item_with_attachment_request u k i m mt n t s)"
  by (simp_all add: is_create_def is_presigned_def create_item_request_def
      generate_presigned_url_request_def upload_file_request_def fetch_item_request_def
      update_item_with_attachment_request_def)







section \<open>What the feed client returns\<close>

text \<open>
  \<^verbatim>\<open>create_item\<close> returns an identifier only for a reply with status 201 whose body is an
  object holding a truthy value under \<^verbatim>\<open>id\<close>; a transport error, another status, a body
  that is not JSON and an object without a truthy \<^verbatim>\<open>id\<close> all give \<^verbatim>\<open>None\<close>.
\<close>

lemma create_item_returns_id:
  assumes "create_item net api_url api_key title status st = (Inr (Some item_id), st1)"
  shows "\<exists>ra kvs. net (length (calls st)) (create_item_request api_url api_key title status)
             = Response 201 ra (Json (JObj kvs))
           \<and> map_of kvs ''id'' = Some item_id \<and> truthy item_id"
proof -
  from assms obtain ra data where
    rep: "net (length (calls st)) (create_item_request api_url api_key title status) = Response 201
        ra (Json data)"
    and get: "dict_get data ''id'' = Inr item_id" and tr: "truthy item_id"
    by (auto simp: create_item_def send_def split: reply.splits body.splits sum.splits if_splits)
  from get tr obtain kvs where "data = JObj kvs" "map_of kvs ''id'' = Some item_id"
    by (cases data) (auto split: option.splits)
  with rep tr show ?thesis by blast
qed

lemma create_item_returns_none:
  assumes "net (length (calls st)) (create_item_request api_url api_key title status) = rep"
    and "(\<exists>k. rep = NoResponse k)
       \<or> (\<exists>c ra b. rep = Response c ra b \<and> c \<noteq> 201)
       \<or> (\<exists>ra. rep = Response 201 ra NotJson)
       \<or> (\<exists>ra kvs. rep = Response 201 ra (Json (JObj kvs))
            \<and> (case map_of kvs ''id'' of None \<Rightarrow> True | Some v \<Rightarrow> \<not> truthy v))"
  shows "fst (create_item net api_url api_key title status st) = Inr None"
  using assms by (auto simp: create_item_def send_def split: option.splits)

text \<open>
  C8. A reply with status 201 whose body is JSON but not an object makes
  \<^verbatim>\<open>create_item\<close> raise \<^verbatim>\<open>AttributeError\<close> where the claim (and the docstring:
  "Returns the item_id if successful, else None") has it return \<^verbatim>\<open>None\<close>. Nothing
  catches the exception: the run of two files ends at the first, with one request
  issued and without the closing \<^verbatim>\<open>enable_buttons\<close> event.
\<close>

theorem create_item_list_body_raises:
  "fst (create_item list_reply ''https://feed.example'' ''key'' ''clip'' ''published''
      initial_state) = Inl AttributeError
   \<and> fst (process_files list_reply 8192 no_guess [''videos''] ''key'' ''https://feed.example''
       [clip, other_avi]) = Some AttributeError
   \<and> map op (calls (snd (process_files list_reply 8192 no_guess [''videos''] ''key''
       ''https://feed.example'' [clip, other_avi])))
      = [CreateItem ''clip'' ''published'']
   \<and> EnableButtons True \<notin> set (queue (snd (process_files list_reply 8192 no_guess [''videos'']
       ''key'' ''https://feed.example'' [clip, other_avi])))"
  by (simp add: process_files_def process_file_def Let_def clip_def other_avi_def too_large_def
      create_item_def create_item_request_def send_def list_reply_def puts_def initial_state_def)

section \<open>Timeouts of the feed client\<close>

text \<open>
  C6. Each of the four operations issues exactly one request. The requests of
  \<^verbatim>\<open>create_item\<close>, \<^verbatim>\<open>generate_presigned_url\<close> and \<^verbatim>\<open>update_item_with_attachment\<close> carry no
  timeout; only the request of \<^verbatim>\<open>fetch_item\<close> does (30 seconds).
\<close>

theorem feed_client_timeouts:
  "calls (snd (create_item net api_url api_key title status st))
     = calls st @ [create_item_request api_url api_key title status]
   \<and> timeout (create_item_request api_url api_key title status) = None
   \<and> calls (snd (generate_presigned_url net api_url api_key item_id category file_path st))
     = calls st @ [generate_presigned_url_request api_url api_key item_id category file_path]
   \<and> timeout (generate_presigned_url_request api_url api_key item_id category file_path) = None
   \<and> calls (snd (update_item_with_attachment net api_url api_key item_id media_url mime_type
       size_in_bytes title status st))
     = calls st @ [update_item_with_attachment_request api_url api_key item_id media_url mime_type
         size_in_bytes title status]
   \<and> timeout (update_item_with_attachment_request api_url api_key item_id media_url mime_type
       size_in_bytes title status) = None
   \<and> calls (snd (fetch_item net api_url api_key item_id st))
     = calls st @ [fetch_item_request api_url api_key item_id]
   \<and> timeout (fetch_item_request api_url api_key item_id) = Some 30"
  using create_item_state [OF surjective_pairing, of net api_url api_key title status st]
    generate_presigned_url_state [OF surjective_pairing, of net api_url api_key item_id category file_path st]
    update_item_with_attachment_state [OF surjective_pairing, of net api_url api_key item_id
        media_url mime_type size_in_bytes title status st]
    fetch_item_state [OF surjective_pairing, of net api_url api_key item_id st]
  by (simp add: create_item_request_def generate_presigned_url_request_def
      update_item_with_attachment_request_def fetch_item_request_def)

text \<open>The four requests for one file, with the network down.\<close>

theorem feed_client_timeouts_witness:
  "map timeout (calls (snd (create_item offline ''https://feed.example'' ''key'' ''clip''
      ''published'' initial_state))) = [None]
   \<and> map timeout (calls (snd (generate_presigned_url offline ''https://feed.example'' ''key'' (JStr
       ''7'') ''video'' [''videos'', ''clip.mp4''] initial_state))) = [None]
   \<and> map timeout (calls (snd (update_item_with_attachment offline ''https://feed.example'' ''key''
       (JStr ''7'') (JStr ''https://media.example/clip.mp4'') ''video/mp4'' 10 ''clip''
       ''published'' initial_state))) = [None]
   \<and> map timeout (calls (snd (fetch_item offline ''https://feed.example'' ''key'' (JStr ''7'')
       initial_state))) = [Some 30]"
  using feed_client_timeouts [of offline "''https://feed.example''" "''key''" "''clip''"
      "''published''" initial_state
      "JStr ''7''" "''video''" "[''videos'', ''clip.mp4'']" "JStr
          ''https://media.example/clip.mp4''" "''video/mp4''" 10]
  by (simp add: initial_state_def)

section \<open>Failures of one file\<close>

lemma event_kinds [simp]:
  "is_status (Status m)" "\<not> is_status (FileStatus n s)" "\<not> is_status (FileLocation n p)"
  "\<not> is_status (FileItemId n i)" "\<not> is_status (FileApiLink n i)" "\<not> is_status (FileProgress n q)"
  "\<not> is_status (FileSpeed n)" "\<not> is_status (OverallProgress q)" "\<not> is_status (EnableButtons b)"
  "\<not> is_file_status (Status m)" "is_file_status (FileStatus n s)" "\<not> is_file_status (FileLocation n p)"
  "\<not> is_file_status (FileItemId n i)" "\<not> is_file_status (FileApiLink n i)" "\<not> is_file_status
      (FileProgress n q)"
  "\<not> is_file_status (FileSpeed n)" "\<not> is_file_status (OverallProgress q)" "\<not> is_file_status (EnableButtons b)"
  by (simp_all add: is_status_def is_file_status_def)

lemma no_status_in_progress:
  "filter is_status (concat (map (\<lambda>c. [FileProgress name (f c), FileSpeed name]) cs)) = []"
  "filter is_file_status (concat (map (\<lambda>c. [FileProgress name (f c), FileSpeed name]) cs)) = []"
  by (induction cs) simp_all

lemma create_failure_handled:
  assumes small: "\<not> too_large (st_size file)"
    and c: "create_step net microfeed_url api_key total_files idx file st = (Inr None, st2)"
  shows "fst (process_file net blocksize guess_type folder_path api_key microfeed_url total_files
      idx file st) = None
     \<and> take 2 (new_events st (snd (process_file net blocksize guess_type folder_path api_key
         microfeed_url total_files idx file st))) = (announcement file idx total_files)
     \<and> length (filter is_status (drop 2 (new_events st (snd (process_file net blocksize guess_type
         folder_path api_key microfeed_url total_files idx file st))))) = 1
     \<and> length (filter is_file_status (drop 2 (new_events st (snd (process_file net blocksize
         guess_type folder_path api_key microfeed_url total_files idx file st))))) = 1
     \<and> moves (snd (process_file net blocksize guess_type folder_path api_key microfeed_url
         total_files idx file st)) = moves st"
proof -
  have s2: "st2 = (puts (announcement file idx total_files) st)\<lparr>calls := calls st @ [create_request
      microfeed_url api_key file]\<rparr>"
    using create_item_state [OF c] by simp
  show ?thesis
    unfolding process_file_create_failed [OF small c]
    using s2
    by (simp add: new_events_def no_status_in_progress)
qed

lemma presign_failure_handled:
  assumes small: "\<not> too_large (st_size file)"
    and c: "create_step net microfeed_url api_key total_files idx file st = (Inr (Some item_id), st2)"
    and p: "credential_step net microfeed_url api_key folder_path file item_id st2 = (Inr None, st3)"
  shows "fst (process_file net blocksize guess_type folder_path api_key microfeed_url total_files
      idx file st) = None
     \<and> take 2 (new_events st (snd (process_file net blocksize guess_type folder_path api_key
         microfeed_url total_files idx file st))) = (announcement file idx total_files)
     \<and> length (filter is_status (drop 2 (new_events st (snd (process_file net blocksize guess_type
         folder_path api_key microfeed_url total_files idx file st))))) = 1
     \<and> length (filter is_file_status (drop 2 (new_events st (snd (process_file net blocksize
         guess_type folder_path api_key microfeed_url total_files idx file st))))) = 1
     \<and> moves (snd (process_file net blocksize guess_type folder_path api_key microfeed_url
         total_files idx file st)) = moves st"
proof -
  have s2: "st2 = (puts (announcement file idx total_files) st)\<lparr>calls := calls st @ [create_request
      microfeed_url api_key file]\<rparr>"
    using create_item_state [OF c] by simp
  have s3: "st3 = (puts [FileItemId (file_name file) item_id] st2)\<lparr>calls := calls st2 @
      [credential_request microfeed_url api_key folder_path file item_id]\<rparr>"
    using generate_presigned_url_state [OF p] by simp
  show ?thesis
    unfolding process_file_presign_failed [OF small c p]
    using s2 s3
    by (simp add: new_events_def no_status_in_progress)
qed

lemma upload_failure_handled:
  assumes small: "\<not> too_large (st_size file)"
    and c: "create_step net microfeed_url api_key total_files idx file st = (Inr (Some item_id), st2)"
    and p: "credential_step net microfeed_url api_key folder_path file item_id st2 = (Inr (Some
        (presigned_url, media_url)), st3)"
    and u: "upload_step net blocksize folder_path file presigned_url media_url st3 = (Inr False, st4)"
  shows "fst (process_file net blocksize guess_type folder_path api_key microfeed_url total_files
      idx file st) = None
     \<and> take 2 (new_events st (snd (process_file net blocksize guess_type folder_path api_key
         microfeed_url total_files idx file st))) = (announcement file idx total_files)
     \<and> length (filter is_status (drop 2 (new_events st (snd (process_file net blocksize guess_type
         folder_path api_key microfeed_url total_files idx file st))))) = 1
     \<and> length (filter is_file_status (drop 2 (new_events st (snd (process_file net blocksize
         guess_type folder_path api_key microfeed_url total_files idx file st))))) = 1
     \<and> moves (snd (process_file net blocksize guess_type folder_path api_key microfeed_url
         total_files idx file st)) = moves st"
proof -
  have s2: "st2 = (puts (announcement file idx total_files) st)\<lparr>calls := calls st @ [create_request
      microfeed_url api_key file]\<rparr>"
    using create_item_state [OF c] by simp
  have s3: "st3 = (puts [FileItemId (file_name file) item_id] st2)\<lparr>calls := calls st2 @
      [credential_request microfeed_url api_key folder_path file item_id]\<rparr>"
    using generate_presigned_url_state [OF p] by simp
  from upload_file_state [OF u] obtain k rds where s4: "st4 = (report (file_name file) (st_size
      file) (counts 0 rds) (puts [FileApiLink (file_name file) media_url] st3))\<lparr>calls := calls st3 @
      replicate k (upload_request folder_path file presigned_url)\<rparr>"
    by (auto simp: report_def puts_def)
  show ?thesis
    unfolding process_file_upload_failed [OF small c p u]
    using s2 s3 s4
    by (simp add: new_events_def no_status_in_progress)
qed

lemma fetch_failure_handled:
  assumes small: "\<not> too_large (st_size file)"
    and c: "create_step net microfeed_url api_key total_files idx file st = (Inr (Some item_id), st2)"
    and p: "credential_step net microfeed_url api_key folder_path file item_id st2 = (Inr (Some
        (presigned_url, media_url)), st3)"
    and u: "upload_step net blocksize folder_path file presigned_url media_url st3 = (Inr True, st4)"
    and f: "fetch_item net microfeed_url api_key item_id st4 = (item_data, st5)"
    and nt: "\<not> (case item_data of None \<Rightarrow> False | Some d \<Rightarrow> truthy d)"
  shows "fst (process_file net blocksize guess_type folder_path api_key microfeed_url total_files
      idx file st) = None
     \<and> take 2 (new_events st (snd (process_file net blocksize guess_type folder_path api_key
         microfeed_url total_files idx file st))) = (announcement file idx total_files)
     \<and> length (filter is_status (drop 2 (new_events st (snd (process_file net blocksize guess_type
         folder_path api_key microfeed_url total_files idx file st))))) = 1
     \<and> length (filter is_file_status (drop 2 (new_events st (snd (process_file net blocksize
         guess_type folder_path api_key microfeed_url total_files idx file st))))) = 1
     \<and> moves (snd (process_file net blocksize guess_type folder_path api_key microfeed_url
         total_files idx file st)) = moves st"
proof -
  have s2: "st2 = (puts (announcement file idx total_files) st)\<lparr>calls := calls st @ [create_request
      microfeed_url api_key file]\<rparr>"
    using create_item_state [OF c] by simp
  have s3: "st3 = (puts [FileItemId (file_name file) item_id] st2)\<lparr>calls := calls st2 @
      [credential_request microfeed_url api_key folder_path file item_id]\<rparr>"
    using generate_presigned_url_state [OF p] by simp
  from upload_file_state [OF u] obtain k rds where s4: "st4 = (report (file_name file) (st_size
      file) (counts 0 rds) (puts [FileApiLink (file_name file) media_url] st3))\<lparr>calls := calls st3 @
      replicate k (upload_request folder_path file presigned_url)\<rparr>"
    by (auto simp: report_def puts_def)
  note s5 = fetch_item_state [OF f]
  show ?thesis
    unfolding process_file_fetch_failed [OF small c p u f nt]
    using s2 s3 s4 s5
    by (simp add: new_events_def no_status_in_progress)
qed

lemma update_failure_handled:
  assumes small: "\<not> too_large (st_size file)"
    and c: "create_step net microfeed_url api_key total_files idx file st = (Inr (Some item_id), st2)"
    and p: "credential_step net microfeed_url api_key folder_path file item_id st2 = (Inr (Some
        (presigned_url, media_url)), st3)"
    and u: "upload_step net blocksize folder_path file presigned_url media_url st3 = (Inr True, st4)"
    and f: "fetch_item net microfeed_url api_key item_id st4 = (item_data, st5)"
    and t: "(case item_data of None \<Rightarrow> False | Some d \<Rightarrow> truthy d)"
    and d: "update_step net microfeed_url api_key guess_type file item_id media_url st5 = (False, st6)"
    and nz: "total_files \<noteq> 0"
  shows "fst (process_file net blocksize guess_type folder_path api_key microfeed_url total_files
      idx file st) = None
     \<and> take 2 (new_events st (snd (process_file net blocksize guess_type folder_path api_key
         microfeed_url total_files idx file st))) = (announcement file idx total_files)
     \<and> length (filter is_status (drop 2 (new_events st (snd (process_file net blocksize guess_type
         folder_path api_key microfeed_url total_files idx file st))))) = 1
     \<and> length (filter is_file_status (drop 2 (new_events st (snd (process_file net blocksize
         guess_type folder_path api_key microfeed_url total_files idx file st))))) = 1
     \<and> moves (snd (process_file net blocksize guess_type folder_path api_key microfeed_url
         total_files idx file st)) = moves st"
proof -
  have s2: "st2 = (puts (announcement file idx total_files) st)\<lparr>calls := calls st @ [create_request
      microfeed_url api_key file]\<rparr>"
    using create_item_state [OF c] by simp
  have s3: "st3 = (puts [FileItemId (file_name file) item_id] st2)\<lparr>calls := calls st2 @
      [credential_request microfeed_url api_key folder_path file item_id]\<rparr>"
    using generate_presigned_url_state [OF p] by simp
  from upload_file_state [OF u] obtain k rds where s4: "st4 = (report (file_name file) (st_size
      file) (counts 0 rds) (puts [FileApiLink (file_name file) media_url] st3))\<lparr>calls := calls st3 @
      replicate k (upload_request folder_path file presigned_url)\<rparr>"
    by (auto simp: report_def puts_def)
  note s5 = fetch_item_state [OF f]
  note s6 = update_item_with_attachment_state [OF d]
  show ?thesis
    unfolding process_file_update_failed [where guess_type = guess_type, OF small c p u f t d nz]
    using s2 s3 s4 s5 s6
    by (simp add: new_events_def no_status_in_progress)
qed

text \<open>
  Failures that are returned. Take a file within the size limit for which one of the
  five calls returns its failure value: \<^verbatim>\<open>create_item\<close> returns \<^verbatim>\<open>None\<close>, or
  \<^verbatim>\<open>generate_presigned_url\<close> returns \<^verbatim>\<open>(None, None)\<close>, or \<^verbatim>\<open>upload_file\<close> returns
  \<^verbatim>\<open>False\<close>, or \<^verbatim>\<open>fetch_item\<close> returns nothing truthy, or
  \<^verbatim>\<open>update_item_with_attachment\<close> returns \<^verbatim>\<open>False\<close>. Then the loop body raises nothing;
  after the two events that announce the file (the text and \<^verbatim>\<open>"Processing"\<close>) it puts
  exactly one status text and exactly one per-file status on the queue; it moves nothing;
  and the loop goes on with the next file.
\<close>

lemma per_file_failure_handled:
  assumes small: "\<not> too_large (st_size file)"
    and failure:
     "(create_step net microfeed_url api_key total_files idx file st = (Inr None, st2))
      \<or> (create_step net microfeed_url api_key total_files idx file st = (Inr (Some item_id), st2)
          \<and> credential_step net microfeed_url api_key folder_path file item_id st2 = (Inr None, st3))
      \<or> (create_step net microfeed_url api_key total_files idx file st = (Inr (Some item_id), st2)
          \<and> credential_step net microfeed_url api_key folder_path file item_id st2 = (Inr (Some
              (presigned_url, media_url)), st3)
          \<and> upload_step net blocksize folder_path file presigned_url media_url st3 = (Inr False, st4))
      \<or> (create_step net microfeed_url api_key total_files idx file st = (Inr (Some item_id), st2)
          \<and> credential_step net microfeed_url api_key folder_path file item_id st2 = (Inr (Some
              (presigned_url, media_url)), st3)
          \<and> upload_step net blocksize folder_path file presigned_url media_url st3 = (Inr True, st4)
          \<and> fetch_item net microfeed_url api_key item_id st4 = (item_data, st5)
          \<and> \<not> (case item_data of None \<Rightarrow> False | Some d \<Rightarrow> truthy d))
      \<or> (create_step net microfeed_url api_key total_files idx file st = (Inr (Some item_id), st2)
          \<and> credential_step net microfeed_url api_key folder_path file item_id st2 = (Inr (Some
              (presigned_url, media_url)), st3)
          \<and> upload_step net blocksize folder_path file presigned_url media_url st3 = (Inr True, st4)
          \<and> fetch_item net microfeed_url api_key item_id st4 = (item_data, st5)
          \<and> (case item_data of None \<Rightarrow> False | Some d \<Rightarrow> truthy d)
          \<and> update_step net microfeed_url api_key guess_type file item_id media_url st5 = (False, st6)
          \<and> total_files \<noteq> 0)"
  shows "fst (process_file net blocksize guess_type folder_path api_key microfeed_url total_files
      idx file st) = None
     \<and> take 2 (new_events st (snd (process_file net blocksize guess_type folder_path api_key
         microfeed_url total_files idx file st))) = (announcement file idx total_files)
     \<and> length (filter is_status (drop 2 (new_events st (snd (process_file net blocksize guess_type
         folder_path api_key microfeed_url total_files idx file st))))) = 1
     \<and> length (filter is_file_status (drop 2 (new_events st (snd (process_file net blocksize
         guess_type folder_path api_key microfeed_url total_files idx file st))))) = 1
     \<and> moves (snd (process_file net blocksize guess_type folder_path api_key microfeed_url
         total_files idx file st)) = moves st
     \<and> process_loop net blocksize guess_type folder_path api_key microfeed_url total_files idx (file
         # files) st
         = process_loop net blocksize guess_type folder_path api_key microfeed_url total_files (idx
             + 1) files (snd (process_file net blocksize guess_type folder_path api_key
             microfeed_url total_files idx file st))"
proof -
  from failure have handled: "fst (process_file net blocksize guess_type folder_path api_key
      microfeed_url total_files idx file st) = None
     \<and> take 2 (new_events st (snd (process_file net blocksize guess_type folder_path api_key
         microfeed_url total_files idx file st))) = (announcement file idx total_files)
     \<and> length (filter is_status (drop 2 (new_events st (snd (process_file net blocksize guess_type
         folder_path api_key microfeed_url total_files idx file st))))) = 1
     \<and> length (filter is_file_status (drop 2 (new_events st (snd (process_file net blocksize
         guess_type folder_path api_key microfeed_url total_files idx file st))))) = 1
     \<and> moves (snd (process_file net blocksize guess_type folder_path api_key microfeed_url
         total_files idx file st)) = moves st"
  proof (elim disjE conjE)
    assume "create_step net microfeed_url api_key total_files idx file st = (Inr None, st2)"
    from create_failure_handled [OF small this] show ?thesis .
  next
    assume "create_step net microfeed_url api_key total_files idx file st = (Inr (Some item_id),
        st2)" "credential_step net microfeed_url api_key folder_path file item_id st2 = (Inr None,
        st3)"
    from presign_failure_handled [OF small this] show ?thesis .
  next
    assume "create_step net microfeed_url api_key total_files idx file st = (Inr (Some item_id),
        st2)" "credential_step net microfeed_url api_key folder_path file item_id st2 = (Inr (Some
        (presigned_url, media_url)), st3)" "upload_step net blocksize folder_path file presigned_url
        media_url st3 = (Inr False, st4)"
    from upload_failure_handled [OF small this] show ?thesis .
  next
    assume "create_step net microfeed_url api_key total_files idx file st = (Inr (Some item_id),
        st2)" "credential_step net microfeed_url api_key folder_path file item_id st2 = (Inr (Some
        (presigned_url, media_url)), st3)" "upload_step net blocksize folder_path file presigned_url
        media_url st3 = (Inr True, st4)" "fetch_item net microfeed_url api_key item_id st4 =
        (item_data, st5)" "\<not> (case item_data of None \<Rightarrow> False | Some d \<Rightarrow> truthy d)"
    from fetch_failure_handled [OF small this] show ?thesis .
  next
    assume "create_step net microfeed_url api_key total_files idx file st = (Inr (Some item_id),
        st2)" "credential_step net microfeed_url api_key folder_path file item_id st2 = (Inr (Some
        (presigned_url, media_url)), st3)" "upload_step net blocksize folder_path file presigned_url
        media_url st3 = (Inr True, st4)" "fetch_item net microfeed_url api_key item_id st4 =
        (item_data, st5)" "(case item_data of None \<Rightarrow> False | Some d \<Rightarrow> truthy d)" "update_step net
        microfeed_url api_key guess_type file item_id media_url st5 = (False, st6)" "total_files \<noteq>
        0"
    from update_failure_handled [where guess_type = guess_type, OF small this] show ?thesis .
  qed
  then have "fst (process_file net blocksize guess_type folder_path api_key microfeed_url
      total_files idx file st) = None" by blast
  then have "process_loop net blocksize guess_type folder_path api_key microfeed_url total_files idx
      (file # files) st
         = process_loop net blocksize guess_type folder_path api_key microfeed_url total_files (idx
             + 1) files (snd (process_file net blocksize guess_type folder_path api_key
             microfeed_url total_files idx file st))"
    by (cases "process_file net blocksize guess_type folder_path api_key microfeed_url total_files
        idx file st") simp
  with handled show ?thesis by blast
qed

text \<open>A file whose update fails: one failure text and one \<^verbatim>\<open>"Error"\<close>, nothing moved.\<close>

lemma per_file_failure_handled_example:
  "\<not> too_large (st_size clip)
   \<and> fst (process_file update_rejected 4 no_guess [''videos''] ''key'' ''https://feed.example''
       (1::nat) (0::nat) clip initial_state) = None
     \<and> take 2 (new_events initial_state (snd (process_file update_rejected 4 no_guess [''videos'']
         ''key'' ''https://feed.example'' (1::nat) (0::nat) clip initial_state))) = (announcement
         clip (0::nat) (1::nat))
     \<and> length (filter is_status (drop 2 (new_events initial_state (snd (process_file update_rejected
         4 no_guess [''videos''] ''key'' ''https://feed.example'' (1::nat) (0::nat) clip
         initial_state))))) = 1
     \<and> length (filter is_file_status (drop 2 (new_events initial_state (snd (process_file
         update_rejected 4 no_guess [''videos''] ''key'' ''https://feed.example'' (1::nat) (0::nat)
         clip initial_state))))) = 1
     \<and> moves (snd (process_file update_rejected 4 no_guess [''videos''] ''key''
         ''https://feed.example'' (1::nat) (0::nat) clip initial_state)) = moves initial_state"
proof -
  have small: "\<not> too_large (st_size clip)"
    by (simp add: clip_def too_large_def)
  let ?st2 = "snd (create_step update_rejected ''https://feed.example'' ''key'' (1::nat) (0::nat)
      clip initial_state)"
  let ?st3 = "snd (credential_step update_rejected ''https://feed.example'' ''key'' [''videos'']
      clip (JStr ''7'') ?st2)"
  let ?st4 = "snd (upload_step update_rejected 4 [''videos''] clip (JStr
      ''https://store.example/put'') (JStr ''https://media.example/clip.mp4'') ?st3)"
  let ?st5 = "snd (fetch_item update_rejected ''https://feed.example'' ''key'' (JStr ''7'') ?st4)"
  let ?st6 = "snd (update_step update_rejected ''https://feed.example'' ''key'' no_guess clip (JStr
      ''7'') (JStr ''https://media.example/clip.mp4'') ?st5)"
  have c: "create_step update_rejected ''https://feed.example'' ''key'' (1::nat) (0::nat) clip
      initial_state = (Inr (Some (JStr ''7'')), ?st2)"
    by (simp add: update_rejected_def process_file_def Let_def clip_def too_large_def service_def
        create_item_def create_item_request_def generate_presigned_url_def
        generate_presigned_url_request_def upload_file_def upload_file_request_def session_put.simps
        file_reads_def chunk_lens.simps ProgressFile_init_def ProgressFile_read_def
        progress_callback_def put_def is_retry_def status_forcelist_def fetch_item_def
        fetch_item_request_def update_item_with_attachment_def
        update_item_with_attachment_request_def send_def puts_def initial_state_def no_guess_def
        new_events_def new_calls_def)
  have p: "credential_step update_rejected ''https://feed.example'' ''key'' [''videos''] clip (JStr
      ''7'') ?st2 = (Inr (Some ((JStr ''https://store.example/put''), (JStr
      ''https://media.example/clip.mp4''))), ?st3)"
    by (simp add: update_rejected_def process_file_def Let_def clip_def too_large_def service_def
        create_item_def create_item_request_def generate_presigned_url_def
        generate_presigned_url_request_def upload_file_def upload_file_request_def session_put.simps
        file_reads_def chunk_lens.simps ProgressFile_init_def ProgressFile_read_def
        progress_callback_def put_def is_retry_def status_forcelist_def fetch_item_def
        fetch_item_request_def update_item_with_attachment_def
        update_item_with_attachment_request_def send_def puts_def initial_state_def no_guess_def
        new_events_def new_calls_def)
  have u: "upload_step update_rejected 4 [''videos''] clip (JStr ''https://store.example/put'')
      (JStr ''https://media.example/clip.mp4'') ?st3 = (Inr True, ?st4)"
    by (simp add: update_rejected_def process_file_def Let_def clip_def too_large_def service_def
        create_item_def create_item_request_def generate_presigned_url_def
        generate_presigned_url_request_def upload_file_def upload_file_request_def session_put.simps
        file_reads_def chunk_lens.simps ProgressFile_init_def ProgressFile_read_def
        progress_callback_def put_def is_retry_def status_forcelist_def fetch_item_def
        fetch_item_request_def update_item_with_attachment_def
        update_item_with_attachment_request_def send_def puts_def initial_state_def no_guess_def
        new_events_def new_calls_def)
  have f: "fetch_item update_rejected ''https://feed.example'' ''key'' (JStr ''7'') ?st4 = ((Some
      (JObj [(''id'', JStr ''7'')])), ?st5)"
    by (simp add: update_rejected_def process_file_def Let_def clip_def too_large_def service_def
        create_item_def create_item_request_def generate_presigned_url_def
        generate_presigned_url_request_def upload_file_def upload_file_request_def session_put.simps
        file_reads_def chunk_lens.simps ProgressFile_init_def ProgressFile_read_def
        progress_callback_def put_def is_retry_def status_forcelist_def fetch_item_def
        fetch_item_request_def update_item_with_attachment_def
        update_item_with_attachment_request_def send_def puts_def initial_state_def no_guess_def
        new_events_def new_calls_def)
  have t: "(case (Some (JObj [(''id'', JStr ''7'')])) of None \<Rightarrow> False | Some d \<Rightarrow> truthy d)"
    by (simp add: update_rejected_def process_file_def Let_def clip_def too_large_def service_def
        create_item_def create_item_request_def generate_presigned_url_def
        generate_presigned_url_request_def upload_file_def upload_file_request_def session_put.simps
        file_reads_def chunk_lens.simps ProgressFile_init_def ProgressFile_read_def
        progress_callback_def put_def is_retry_def status_forcelist_def fetch_item_def
        fetch_item_request_def update_item_with_attachment_def
        update_item_with_attachment_request_def send_def puts_def initial_state_def no_guess_def
        new_events_def new_calls_def)
  have d: "update_step update_rejected ''https://feed.example'' ''key'' no_guess clip (JStr ''7'')
      (JStr ''https://media.example/clip.mp4'') ?st5 = (False, ?st6)"
    by (simp add: update_rejected_def process_file_def Let_def clip_def too_large_def service_def
        create_item_def create_item_request_def generate_presigned_url_def
        generate_presigned_url_request_def upload_file_def upload_file_request_def session_put.simps
        file_reads_def chunk_lens.simps ProgressFile_init_def ProgressFile_read_def
        progress_callback_def put_def is_retry_def status_forcelist_def fetch_item_def
        fetch_item_request_def update_item_with_attachment_def
        update_item_with_attachment_request_def send_def puts_def initial_state_def no_guess_def
        new_events_def new_calls_def)
  have nz: "(1::nat) \<noteq> 0" by simp
  have fail: "(create_step update_rejected ''https://feed.example'' ''key'' (1::nat) (0::nat) clip
      initial_state = (Inr None, ?st2))
      \<or> (create_step update_rejected ''https://feed.example'' ''key'' (1::nat) (0::nat) clip
          initial_state = (Inr (Some (JStr ''7'')), ?st2)
          \<and> credential_step update_rejected ''https://feed.example'' ''key'' [''videos''] clip (JStr
              ''7'') ?st2 = (Inr None, ?st3))
      \<or> (create_step update_rejected ''https://feed.example'' ''key'' (1::nat) (0::nat) clip
          initial_state = (Inr (Some (JStr ''7'')), ?st2)
          \<and> credential_step update_rejected ''https://feed.example'' ''key'' [''videos''] clip (JStr
              ''7'') ?st2 = (Inr (Some ((JStr ''https://store.example/put''), (JStr
              ''https://media.example/clip.mp4''))), ?st3)
          \<and> upload_step update_rejected 4 [''videos''] clip (JStr ''https://store.example/put'')
              (JStr ''https://media.example/clip.mp4'') ?st3 = (Inr False, ?st4))
      \<or> (create_step update_rejected ''https://feed.example'' ''key'' (1::nat) (0::nat) clip
          initial_state = (Inr (Some (JStr ''7'')), ?st2)
          \<and> credential_step update_rejected ''https://feed.example'' ''key'' [''videos''] clip (JStr
              ''7'') ?st2 = (Inr (Some ((JStr ''https://store.example/put''), (JStr
              ''https://media.example/clip.mp4''))), ?st3)
          \<and> upload_step update_rejected 4 [''videos''] clip (JStr ''https://store.example/put'')
              (JStr ''https://media.example/clip.mp4'') ?st3 = (Inr True, ?st4)
          \<and> fetch_item update_rejected ''https://feed.example'' ''key'' (JStr ''7'') ?st4 = ((Some
              (JObj [(''id'', JStr ''7'')])), ?st5)
          \<and> \<not> (case (Some (JObj [(''id'', JStr ''7'')])) of None \<Rightarrow> False | Some d \<Rightarrow> truthy d))
      \<or> (create_step update_rejected ''https://feed.example'' ''key'' (1::nat) (0::nat) clip
          initial_state = (Inr (Some (JStr ''7'')), ?st2)
          \<and> credential_step update_rejected ''https://feed.example'' ''key'' [''videos''] clip (JStr
              ''7'') ?st2 = (Inr (Some ((JStr ''https://store.example/put''), (JStr
              ''https://media.example/clip.mp4''))), ?st3)
          \<and> upload_step update_rejected 4 [''videos''] clip (JStr ''https://store.example/put'')
              (JStr ''https://media.example/clip.mp4'') ?st3 = (Inr True, ?st4)
          \<and> fetch_item update_rejected ''https://feed.example'' ''key'' (JStr ''7'') ?st4 = ((Some
              (JObj [(''id'', JStr ''7'')])), ?st5)
          \<and> (case (Some (JObj [(''id'', JStr ''7'')])) of None \<Rightarrow> False | Some d \<Rightarrow> truthy d)
          \<and> update_step update_rejected ''https://feed.example'' ''key'' no_guess clip (JStr ''7'')
              (JStr ''https://media.example/clip.mp4'') ?st5 = (False, ?st6)
          \<and> (1::nat) \<noteq> 0)"
    using c p u f t d nz by blast
  from per_file_failure_handled [where guess_type = no_guess and files = "[]", OF small fail] small
  show ?thesis by blast
qed

text \<open>
  C7. A failure that raises is not handled in the loop. A reply with status 201 whose
  body is JSON but not an object makes \<^verbatim>\<open>create_item\<close>, and likewise
  \<^verbatim>\<open>generate_presigned_url\<close>, raise \<^verbatim>\<open>AttributeError\<close>, which nothing catches (the
  defect of C8). For the first of two files the loop body then puts no failure text and
  no per-file status after the events that precede the call, and the loop ends with that
  body: the second file gets no request at all. The failures that are returned are
  handled as stated (\<open>per_file_failure_handled\<close>).
\<close>

theorem raising_failure_not_handled:
  "fst (process_file list_reply 4 no_guess [''videos''] ''key'' ''https://feed.example'' 2 0 clip
      initial_state) = Some AttributeError
   \<and> new_events initial_state (snd (process_file list_reply 4 no_guess [''videos''] ''key''
       ''https://feed.example'' 2 0 clip initial_state))
      = [Status (ProcessingFile ''clip.mp4'' 1 2), FileStatus ''clip.mp4'' ''Processing'']
   \<and> process_loop list_reply 4 no_guess [''videos''] ''key'' ''https://feed.example'' 2 0
       [clip, other_avi] initial_state
      = process_file list_reply 4 no_guess [''videos''] ''key'' ''https://feed.example'' 2 0 clip
          initial_state
   \<and> map op (calls (snd (process_loop list_reply 4 no_guess [''videos''] ''key''
       ''https://feed.example'' 2 0 [clip, other_avi] initial_state)))
      = [CreateItem ''clip'' ''published'']
   \<and> fst (process_file credential_list_reply 4 no_guess [''videos''] ''key''
       ''https://feed.example'' 2 0 clip initial_state) = Some AttributeError
   \<and> new_events initial_state (snd (process_file credential_list_reply 4 no_guess [''videos'']
       ''key'' ''https://feed.example'' 2 0 clip initial_state))
      = [Status (ProcessingFile ''clip.mp4'' 1 2), FileStatus ''clip.mp4'' ''Processing'',
         FileItemId ''clip.mp4'' (JStr ''7'')]
   \<and> process_loop credential_list_reply 4 no_guess [''videos''] ''key'' ''https://feed.example''
       2 0 [clip, other_avi] initial_state
      = process_file credential_list_reply 4 no_guess [''videos''] ''key''
          ''https://feed.example'' 2 0 clip initial_state
   \<and> map op (calls (snd (process_loop credential_list_reply 4 no_guess [''videos''] ''key''
       ''https://feed.example'' 2 0 [clip, other_avi] initial_state)))
      = [CreateItem ''clip'' ''published'',
         PresignedUrl (JStr ''7'') ''video'' [''videos'', ''clip.mp4'']]"
  by (simp add: process_file_def Let_def clip_def other_avi_def too_large_def
      create_item_def create_item_request_def generate_presigned_url_def
      generate_presigned_url_request_def send_def list_reply_def credential_list_reply_def
      puts_def initial_state_def new_events_def)

section \<open>Progress after a successful fetch\<close>

text \<open>
  C10. When the upload and the fetch of a file succeed, the loop body raises nothing,
  counts the file (\<^verbatim>\<open>files_processed\<close> grows by one and the overall percentage is put
  on the queue) and its last event is the per-file progress 100, whatever the update
  returns. When the update returns \<^verbatim>\<open>False\<close>, the status \<^verbatim>\<open>"Error"\<close> is among the events
  and nothing is moved. (\<^verbatim>\<open>total_files\<close> is the length of a non-empty list.)
\<close>

theorem progress_complete_after_fetch:
  assumes small: "\<not> too_large (st_size file)"
    and c: "create_step net microfeed_url api_key total_files idx file st = (Inr (Some item_id), st2)"
    and p: "credential_step net microfeed_url api_key folder_path file item_id st2 = (Inr (Some
        (presigned_url, media_url)), st3)"
    and u: "upload_step net blocksize folder_path file presigned_url media_url st3 = (Inr True, st4)"
    and f: "fetch_item net microfeed_url api_key item_id st4 = (item_data, st5)"
    and t: "(case item_data of None \<Rightarrow> False | Some d \<Rightarrow> truthy d)"
    and nz: "total_files \<noteq> 0"
  shows "fst (process_file net blocksize guess_type folder_path api_key microfeed_url total_files
      idx file st) = None
     \<and> last (queue (snd (process_file net blocksize guess_type folder_path api_key microfeed_url
         total_files idx file st))) = FileProgress (file_name file) 100
     \<and> OverallProgress (of_nat (files_processed st + 1) / of_nat total_files * 100)
           \<in> set (new_events st (snd (process_file net blocksize guess_type folder_path api_key
               microfeed_url total_files idx file st)))
     \<and> files_processed (snd (process_file net blocksize guess_type folder_path api_key microfeed_url
         total_files idx file st)) = files_processed st + 1
     \<and> (\<not> fst (update_step net microfeed_url api_key guess_type file item_id media_url st5) \<longrightarrow>
           FileStatus (file_name file) ''Error'' \<in> set (new_events st (snd (process_file net
               blocksize guess_type folder_path api_key microfeed_url total_files idx file st)))
           \<and> moves (snd (process_file net blocksize guess_type folder_path api_key microfeed_url
               total_files idx file st)) = moves st)"
proof -
  obtain update_success st6 where d: "update_step net microfeed_url api_key guess_type file item_id
      media_url st5 = (update_success, st6)"
    by (cases "update_step net microfeed_url api_key guess_type file item_id media_url st5")
  have s2: "st2 = (puts (announcement file idx total_files) st)\<lparr>calls := calls st @ [create_request
      microfeed_url api_key file]\<rparr>"
    using create_item_state [OF c] by simp
  have s3: "st3 = (puts [FileItemId (file_name file) item_id] st2)\<lparr>calls := calls st2 @
      [credential_request microfeed_url api_key folder_path file item_id]\<rparr>"
    using generate_presigned_url_state [OF p] by simp
  from upload_file_state [OF u] obtain k rds where s4: "st4 = (report (file_name file) (st_size
      file) (counts 0 rds) (puts [FileApiLink (file_name file) media_url] st3))\<lparr>calls := calls st3 @
      replicate k (upload_request folder_path file presigned_url)\<rparr>"
    by (auto simp: report_def puts_def)
  note s5 = fetch_item_state [OF f]
  note s6 = update_item_with_attachment_state [OF d]
  show ?thesis
    unfolding process_file_finalized [where guess_type = guess_type, OF small c p u f t d]
    using s2 s3 s4 s5 s6 nz d
    by (simp add: new_events_def)
qed

text \<open>The file whose update is answered with 500 still ends with the progress 100.\<close>

theorem progress_complete_after_fetch_witness:
  "\<not> too_large (st_size clip)
   \<and> last (queue (snd (process_file update_rejected 4 no_guess [''videos''] ''key''
       ''https://feed.example'' (1::nat) (0::nat) clip initial_state))) = FileProgress ''clip.mp4''
       100
   \<and> OverallProgress 100 \<in> set (queue (snd (process_file update_rejected 4 no_guess [''videos'']
       ''key'' ''https://feed.example'' (1::nat) (0::nat) clip initial_state)))
   \<and> FileStatus ''clip.mp4'' ''Error'' \<in> set (queue (snd (process_file update_rejected 4 no_guess
       [''videos''] ''key'' ''https://feed.example'' (1::nat) (0::nat) clip initial_state)))
   \<and> moves (snd (process_file update_rejected 4 no_guess [''videos''] ''key''
       ''https://feed.example'' (1::nat) (0::nat) clip initial_state)) = []"
proof -
  have small: "\<not> too_large (st_size clip)"
    by (simp add: clip_def too_large_def)
  let ?st2 = "snd (create_step update_rejected ''https://feed.example'' ''key'' (1::nat) (0::nat)
      clip initial_state)"
  let ?st3 = "snd (credential_step update_rejected ''https://feed.example'' ''key'' [''videos'']
      clip (JStr ''7'') ?st2)"
  let ?st4 = "snd (upload_step update_rejected 4 [''videos''] clip (JStr
      ''https://store.example/put'') (JStr ''https://media.example/clip.mp4'') ?st3)"
  let ?st5 = "snd (fetch_item update_rejected ''https://feed.example'' ''key'' (JStr ''7'') ?st4)"
  let ?st6 = "snd (update_step update_rejected ''https://feed.example'' ''key'' no_guess clip (JStr
      ''7'') (JStr ''https://media.example/clip.mp4'') ?st5)"
  have c: "create_step update_rejected ''https://feed.example'' ''key'' (1::nat) (0::nat) clip
      initial_state = (Inr (Some (JStr ''7'')), ?st2)"
    by (simp add: update_rejected_def process_file_def Let_def clip_def too_large_def service_def
        create_item_def create_item_request_def generate_presigned_url_def
        generate_presigned_url_request_def upload_file_def upload_file_request_def session_put.simps
        file_reads_def chunk_lens.simps ProgressFile_init_def ProgressFile_read_def
        progress_callback_def put_def is_retry_def status_forcelist_def fetch_item_def
        fetch_item_request_def update_item_with_attachment_def
        update_item_with_attachment_request_def send_def puts_def initial_state_def no_guess_def
        new_events_def new_calls_def)
  have p: "credential_step update_rejected ''https://feed.example'' ''key'' [''videos''] clip (JStr
      ''7'') ?st2 = (Inr (Some ((JStr ''https://store.example/put''), (JStr
      ''https://media.example/clip.mp4''))), ?st3)"
    by (simp add: update_rejected_def process_file_def Let_def clip_def too_large_def service_def
        create_item_def create_item_request_def generate_presigned_url_def
        generate_presigned_url_request_def upload_file_def upload_file_request_def session_put.simps
        file_reads_def chunk_lens.simps ProgressFile_init_def ProgressFile_read_def
        progress_callback_def put_def is_retry_def status_forcelist_def fetch_item_def
        fetch_item_request_def update_item_with_attachment_def
        update_item_with_attachment_request_def send_def puts_def initial_state_def no_guess_def
        new_events_def new_calls_def)
  have u: "upload_step update_rejected 4 [''videos''] clip (JStr ''https://store.example/put'')
      (JStr ''https://media.example/clip.mp4'') ?st3 = (Inr True, ?st4)"
    by (simp add: update_rejected_def process_file_def Let_def clip_def too_large_def service_def
        create_item_def create_item_request_def generate_presigned_url_def
        generate_presigned_url_request_def upload_file_def upload_file_request_def session_put.simps
        file_reads_def chunk_lens.simps ProgressFile_init_def ProgressFile_read_def
        progress_callback_def put_def is_retry_def status_forcelist_def fetch_item_def
        fetch_item_request_def update_item_with_attachment_def
        update_item_with_attachment_request_def send_def puts_def initial_state_def no_guess_def
        new_events_def new_calls_def)
  have f: "fetch_item update_rejected ''https://feed.example'' ''key'' (JStr ''7'') ?st4 = ((Some
      (JObj [(''id'', JStr ''7'')])), ?st5)"
    by (simp add: update_rejected_def process_file_def Let_def clip_def too_large_def service_def
        create_item_def create_item_request_def generate_presigned_url_def
        generate_presigned_url_request_def upload_file_def upload_file_request_def session_put.simps
        file_reads_def chunk_lens.simps ProgressFile_init_def ProgressFile_read_def
        progress_callback_def put_def is_retry_def status_forcelist_def fetch_item_def
        fetch_item_request_def update_item_with_attachment_def
        update_item_with_attachment_request_def send_def puts_def initial_state_def no_guess_def
        new_events_def new_calls_def)
  have t: "(case (Some (JObj [(''id'', JStr ''7'')])) of None \<Rightarrow> False | Some d \<Rightarrow> truthy d)"
    by (simp add: update_rejected_def process_file_def Let_def clip_def too_large_def service_def
        create_item_def create_item_request_def generate_presigned_url_def
        generate_presigned_url_request_def upload_file_def upload_file_request_def session_put.simps
        file_reads_def chunk_lens.simps ProgressFile_init_def ProgressFile_read_def
        progress_callback_def put_def is_retry_def status_forcelist_def fetch_item_def
        fetch_item_request_def update_item_with_attachment_def
        update_item_with_attachment_request_def send_def puts_def initial_state_def no_guess_def
        new_events_def new_calls_def)
  have d: "update_step update_rejected ''https://feed.example'' ''key'' no_guess clip (JStr ''7'')
      (JStr ''https://media.example/clip.mp4'') ?st5 = (False, ?st6)"
    by (simp add: update_rejected_def process_file_def Let_def clip_def too_large_def service_def
        create_item_def create_item_request_def generate_presigned_url_def
        generate_presigned_url_request_def upload_file_def upload_file_request_def session_put.simps
        file_reads_def chunk_lens.simps ProgressFile_init_def ProgressFile_read_def
        progress_callback_def put_def is_retry_def status_forcelist_def fetch_item_def
        fetch_item_request_def update_item_with_attachment_def
        update_item_with_attachment_request_def send_def puts_def initial_state_def no_guess_def
        new_events_def new_calls_def)
  have nz: "(1::nat) \<noteq> 0" by simp
  from arg_cong [OF d, of fst] have failed: "\<not> fst (update_step update_rejected
      ''https://feed.example'' ''key'' no_guess clip (JStr ''7'') (JStr
      ''https://media.example/clip.mp4'') ?st5)"
    by simp
  from progress_complete_after_fetch [where guess_type = no_guess, OF small c p u f t nz] failed small
  show ?thesis
    by (simp add: new_events_def initial_state_def clip_def)
qed

section \<open>Attempts of a transfer\<close>

lemma sum_list_chunk_lens: "blocksize \<noteq> 0 \<Longrightarrow> sum_list (chunk_lens n blocksize) = n"
proof (induction n blocksize rule: chunk_lens.induct)
  case (1 n blocksize)
  show ?case
  proof (cases "n = 0")
    case True
    then show ?thesis by (simp add: chunk_lens.simps)
  next
    case False
    with 1 show ?thesis
      by (subst chunk_lens.simps) simp
  qed
qed

lemma sum_list_file_reads: "blocksize \<noteq> 0 \<Longrightarrow> sum_list (file_reads n blocksize) = n"
  by (simp add: file_reads_def sum_list_chunk_lens)

lemma counts_last: "counts b reads \<noteq> [] \<Longrightarrow> last (counts b reads) = b + sum_list reads"
proof (induction reads arbitrary: b)
  case Nil
  then show ?case by simp
next
  case (Cons n ns)
  show ?case
  proof (cases "n = 0")
    case True
    with Cons show ?thesis by simp
  next
    case False
    show ?thesis
    proof (cases "counts (b + n) ns = []")
      case True
      have "sum_list ns = 0"
      proof (rule ccontr)
        assume "sum_list ns \<noteq> 0"
        then obtain x where "x \<in> set ns" "x \<noteq> 0" by (auto simp: sum_list_eq_0_iff)
        then have "counts (b + n) ns \<noteq> []"
          by (induction ns arbitrary: b) (auto split: if_splits)
        with True show False by simp
      qed
      with True False show ?thesis by simp
    next
      case nonempty: False
      with Cons.IH [of "b + n"] False show ?thesis by (simp add: add.assoc)
    qed
  qed
qed

lemma counts_nonempty: "sum_list reads \<noteq> 0 \<Longrightarrow> counts b reads \<noteq> []"
proof -
  assume "sum_list reads \<noteq> 0"
  then obtain x where "x \<in> set reads" "x \<noteq> 0" by (auto simp: sum_list_eq_0_iff)
  then show ?thesis
    by (induction reads arbitrary: b) (auto split: if_splits)
qed

lemma progress_values_report:
  "progress_values (concat (map (\<lambda>c. [FileProgress name (f c), FileSpeed name]) cs)) = map f cs"
  by (induction cs) simp_all

lemma upload_file_transfer:
  assumes "opens file"
  shows "\<exists>n rest res.
     upload_file net blocksize presigned_url file_path file (Some (progress_callback name)) r st =
       (Inr (case res of None \<Rightarrow> False | Some c \<Rightarrow> c \<in> {200, 201, 204}),
        (report name (st_size file)
           (counts 0 (attempt_reads (net (length (calls st)) (upload_file_request presigned_url file_path))
                        (file_reads (st_size file) blocksize) @ rest)) st)
        \<lparr>calls := calls st @ replicate n (upload_file_request presigned_url file_path)\<rparr>)
     \<and> 1 \<le> n \<and> n \<le> r + 1
     \<and> (retried r (net (length (calls st)) (upload_file_request presigned_url file_path)) \<longrightarrow> 2 \<le> n)
     \<and> (\<not> retried r (net (length (calls st)) (upload_file_request presigned_url file_path)) \<longrightarrow>
          n = 1 \<and> rest = []
          \<and> res = final_result r (net (length (calls st)) (upload_file_request presigned_url file_path)))"
proof -
  let ?pf = "ProgressFile_init (st_size file) (progress_callback name)"
  let ?req = "upload_file_request presigned_url file_path"
  have "callback ?pf = progress_callback name"
    and "total ?pf \<noteq> 0 \<or> set (file_reads (st_size file) blocksize) \<subseteq> {0}"
    by (auto simp: ProgressFile_init_def file_reads_def)
  from session_put_progress [OF this, of net ?req r st]
  obtain n rest res f1 where
    sp: "session_put net ?req (file_reads (st_size file) blocksize) r (Some ?pf) st =
       (Inr res, f1,
        (report name (st_size file)
           (counts 0 (attempt_reads (net (length (calls st)) ?req) (file_reads (st_size file)
               blocksize) @ rest)) st)
        \<lparr>calls := calls st @ replicate n ?req\<rparr>)"
    and n: "1 \<le> n" "n \<le> r + 1" "retried r (net (length (calls st)) ?req) \<longrightarrow> 2 \<le> n"
      "\<not> retried r (net (length (calls st)) ?req) \<longrightarrow>
          n = 1 \<and> rest = [] \<and> res = final_result r (net (length (calls st)) ?req)"
    by (auto simp: ProgressFile_init_def)
  have "upload_file net blocksize presigned_url file_path file (Some (progress_callback name)) r st =
       (Inr (case res of None \<Rightarrow> False | Some c \<Rightarrow> c \<in> {200, 201, 204}),
        (report name (st_size file)
           (counts 0 (attempt_reads (net (length (calls st)) ?req) (file_reads (st_size file)
               blocksize) @ rest)) st)
        \<lparr>calls := calls st @ replicate n ?req\<rparr>)"
    using assms sp by (cases res) (simp_all add: upload_file_def)
  with n show ?thesis by blast
qed

lemma session_put_always_503:
  assumes cb: "callback pf = progress_callback name"
    and t: "total pf \<noteq> 0 \<or> set reads \<subseteq> {0}"
    and busy: "\<forall>k. \<exists>ra b. net k req = Response 503 ra b"
  shows "\<exists>rds. session_put net req reads r (Some pf) st =
       (Inr None, Some (pf\<lparr>read_bytes := read_bytes pf + sum_list rds\<rparr>),
        (report name (total pf) (counts (read_bytes pf) rds) st)\<lparr>calls := calls st @ replicate (r + 1) req\<rparr>)"
  using cb t
proof (induction r arbitrary: pf st)
  case 0
  from busy obtain ra b where rep: "net (length (calls st)) req = Response 503 ra b" by blast
  show ?case
    by (rule exI [of _ "reads"])
       (simp add: session_put_step [OF 0] rep retried_def final_result_def is_retry_def
          status_forcelist_def attempt_reads_def)
next
  case (Suc r)
  from busy obtain ra b where rep: "net (length (calls st)) req = Response 503 ra b" by blast
  let ?pf1 = "pf\<lparr>read_bytes := read_bytes pf + sum_list reads\<rparr>"
  let ?st1 = "(report name (total pf) (counts (read_bytes pf) reads) st)\<lparr>calls := calls st @ [req]\<rparr>"
  have "callback ?pf1 = progress_callback name" "total ?pf1 \<noteq> 0 \<or> set reads \<subseteq> {0}"
    using Suc.prems by simp_all
  from Suc.IH [OF this, of ?st1] obtain rds where rec:
    "session_put net req reads r (Some ?pf1) ?st1 =
       (Inr None, Some (?pf1\<lparr>read_bytes := read_bytes ?pf1 + sum_list rds\<rparr>),
        (report name (total ?pf1) (counts (read_bytes ?pf1) rds) ?st1)\<lparr>calls := calls ?st1 @
            replicate (r + 1) req\<rparr>)"
    by blast
  have "session_put net req reads (Suc r) (Some pf) st =
       (Inr None, Some (pf\<lparr>read_bytes := read_bytes pf + sum_list (reads @ rds)\<rparr>),
        (report name (total pf) (counts (read_bytes pf) (reads @ rds)) st)\<lparr>calls := calls st @
            replicate (Suc r + 1) req\<rparr>)"
    using rec
    by (simp add: session_put_step [OF Suc.prems] rep retried_def is_retry_def status_forcelist_def
          attempt_reads_def counts_append report_def add.assoc)
  then show ?case by blast
qed

lemma upload_file_always_503:
  assumes "opens file"
    and "\<forall>k. \<exists>ra b. net k (upload_file_request presigned_url file_path) = Response 503 ra b"
  shows "\<exists>rds. upload_file net blocksize presigned_url file_path file (Some (progress_callback name)) r st =
       (Inr False,
        (report name (st_size file) (counts 0 rds) st)
        \<lparr>calls := calls st @ replicate (r + 1) (upload_file_request presigned_url file_path)\<rparr>)"
proof -
  let ?pf = "ProgressFile_init (st_size file) (progress_callback name)"
  have "callback ?pf = progress_callback name"
    and "total ?pf \<noteq> 0 \<or> set (file_reads (st_size file) blocksize) \<subseteq> {0}"
    by (auto simp: ProgressFile_init_def file_reads_def)
  from session_put_always_503 [where net = net and req = "upload_file_request presigned_url file_path",
      OF this assms(2), of r st] assms(1)
  show ?thesis
    by (auto simp: upload_file_def ProgressFile_init_def)
qed

section \<open>Retries of a transfer\<close>

text \<open>
  C3, as the code has it. Take a file within the size limit that opens, with its record
  created and its credential obtained. If the storage answers every attempt with 503,
  \<^verbatim>\<open>upload_file\<close> makes exactly four attempts and returns \<^verbatim>\<open>False\<close>, and the loop body
  ends with the failure text and the status \<^verbatim>\<open>"Upload Failed"\<close>. If the first answer is
  a 4xx status without a \<^verbatim>\<open>Retry-After\<close> header, the same holds with exactly one attempt.
  If the first answer is a 413 or a 429 that carries \<^verbatim>\<open>Retry-After\<close>, at least two
  attempts are made.
\<close>

theorem transfer_retry_bound:
  assumes small: "\<not> too_large (st_size file)"
    and c: "create_step net microfeed_url api_key total_files idx file st = (Inr (Some item_id), st2)"
    and p: "credential_step net microfeed_url api_key folder_path file item_id st2 = (Inr (Some
        (presigned_url, media_url)), st3)"
    and opens: "opens file"
  shows "((\<forall>k. \<exists>ra b. net k (upload_request folder_path file presigned_url) = Response 503 ra b) \<longrightarrow>
           fst (upload_step net blocksize folder_path file presigned_url media_url st3) = Inr False
           \<and> new_calls (puts [FileApiLink (file_name file) media_url] st3) (snd (upload_step net
               blocksize folder_path file presigned_url media_url st3)) = replicate 4
               (upload_request folder_path file presigned_url)
           \<and> fst (process_file net blocksize guess_type folder_path api_key microfeed_url
               total_files idx file st) = None
           \<and> drop (length (queue (snd (process_file net blocksize guess_type folder_path api_key
               microfeed_url total_files idx file st))) - 2) (queue (snd (process_file net blocksize
               guess_type folder_path api_key microfeed_url total_files idx file st)))
               = [Status (FailedUpload (file_name file)), FileStatus (file_name file) ''Upload Failed''])
     \<and> ((\<exists>c b. net (length (calls st3)) (upload_request folder_path file presigned_url) = Response c
         False b \<and> 400 \<le> c \<and> c < 500) \<longrightarrow>
           fst (upload_step net blocksize folder_path file presigned_url media_url st3) = Inr False
           \<and> new_calls (puts [FileApiLink (file_name file) media_url] st3) (snd (upload_step net
               blocksize folder_path file presigned_url media_url st3)) = replicate 1
               (upload_request folder_path file presigned_url)
           \<and> fst (process_file net blocksize guess_type folder_path api_key microfeed_url
               total_files idx file st) = None
           \<and> drop (length (queue (snd (process_file net blocksize guess_type folder_path api_key
               microfeed_url total_files idx file st))) - 2) (queue (snd (process_file net blocksize
               guess_type folder_path api_key microfeed_url total_files idx file st)))
               = [Status (FailedUpload (file_name file)), FileStatus (file_name file) ''Upload Failed''])
     \<and> ((\<exists>c b. net (length (calls st3)) (upload_request folder_path file presigned_url) = Response c
         True b \<and> c \<in> {413, 429}) \<longrightarrow>
           2 \<le> length (new_calls (puts [FileApiLink (file_name file) media_url] st3) (snd
               (upload_step net blocksize folder_path file presigned_url media_url st3))))"
proof -
  have s2: "st2 = (puts (announcement file idx total_files) st)\<lparr>calls := calls st @ [create_request
      microfeed_url api_key file]\<rparr>"
    using create_item_state [OF c] by simp
  have s3: "st3 = (puts [FileItemId (file_name file) item_id] st2)\<lparr>calls := calls st2 @
      [credential_request microfeed_url api_key folder_path file item_id]\<rparr>"
    using generate_presigned_url_state [OF p] by simp
  have failed: "fst (upload_step net blocksize folder_path file presigned_url media_url st3) = Inr False
           \<and> new_calls (puts [FileApiLink (file_name file) media_url] st3) (snd (upload_step net
               blocksize folder_path file presigned_url media_url st3)) = replicate k
               (upload_request folder_path file presigned_url)
           \<and> fst (process_file net blocksize guess_type folder_path api_key microfeed_url
               total_files idx file st) = None
           \<and> drop (length (queue (snd (process_file net blocksize guess_type folder_path api_key
               microfeed_url total_files idx file st))) - 2) (queue (snd (process_file net blocksize
               guess_type folder_path api_key microfeed_url total_files idx file st)))
               = [Status (FailedUpload (file_name file)), FileStatus (file_name file) ''Upload Failed'']"
    if u: "upload_step net blocksize folder_path file presigned_url media_url st3 = (Inr False,
        (report (file_name file) (st_size file) (counts 0 rds) (puts [FileApiLink (file_name file)
        media_url] st3))\<lparr>calls := calls (puts [FileApiLink (file_name file) media_url] st3) @
        replicate k (upload_request folder_path file presigned_url)\<rparr>)"
    for k rds
    unfolding process_file_upload_failed [OF small c p u] u
    by (simp add: new_calls_def)
  have i1: "fst (upload_step net blocksize folder_path file presigned_url media_url st3) = Inr False
           \<and> new_calls (puts [FileApiLink (file_name file) media_url] st3) (snd (upload_step net
               blocksize folder_path file presigned_url media_url st3)) = replicate 4
               (upload_request folder_path file presigned_url)
           \<and> fst (process_file net blocksize guess_type folder_path api_key microfeed_url
               total_files idx file st) = None
           \<and> drop (length (queue (snd (process_file net blocksize guess_type folder_path api_key
               microfeed_url total_files idx file st))) - 2) (queue (snd (process_file net blocksize
               guess_type folder_path api_key microfeed_url total_files idx file st)))
               = [Status (FailedUpload (file_name file)), FileStatus (file_name file) ''Upload Failed'']"
    if "(\<forall>k. \<exists>ra b. net k (upload_request folder_path file presigned_url) = Response 503 ra b)"
  proof -
    from that upload_file_always_503 [where net = net and presigned_url = presigned_url
        and file_path = "folder_path @ [file_name file]" and blocksize = blocksize and name =
            "file_name file" and r = 3
        and st = "(puts [FileApiLink (file_name file) media_url] st3)", OF opens that]
    obtain rds where "upload_step net blocksize folder_path file presigned_url media_url st3 = (Inr
        False, (report (file_name file) (st_size file) (counts 0 rds) (puts [FileApiLink (file_name
        file) media_url] st3))\<lparr>calls := calls (puts [FileApiLink (file_name file) media_url] st3) @
        replicate (3 + 1) (upload_request folder_path file presigned_url)\<rparr>)"
      by blast
    from failed [OF this]
    show ?thesis by simp
  qed
  have i2: "fst (upload_step net blocksize folder_path file presigned_url media_url st3) = Inr False
           \<and> new_calls (puts [FileApiLink (file_name file) media_url] st3) (snd (upload_step net
               blocksize folder_path file presigned_url media_url st3)) = replicate 1
               (upload_request folder_path file presigned_url)
           \<and> fst (process_file net blocksize guess_type folder_path api_key microfeed_url
               total_files idx file st) = None
           \<and> drop (length (queue (snd (process_file net blocksize guess_type folder_path api_key
               microfeed_url total_files idx file st))) - 2) (queue (snd (process_file net blocksize
               guess_type folder_path api_key microfeed_url total_files idx file st)))
               = [Status (FailedUpload (file_name file)), FileStatus (file_name file) ''Upload Failed'']"
    if "(\<exists>c b. net (length (calls st3)) (upload_request folder_path file presigned_url) = Response c
        False b \<and> 400 \<le> c \<and> c < 500)"
  proof -
    from that obtain code b where rep: "net (length (calls st3)) (upload_request folder_path file
        presigned_url) = Response code False b"
      and code: "400 \<le> code" "code < 500" by blast
    have nr: "\<not> retried 3 (net (length (calls (puts [FileApiLink (file_name file) media_url] st3)))
        (upload_request folder_path file presigned_url))"
      using rep code by (simp add: retried_def is_retry_def status_forcelist_def)
    have fr: "final_result 3 (net (length (calls (puts [FileApiLink (file_name file) media_url]
        st3))) (upload_request folder_path file presigned_url)) = Some code"
      using rep code by (simp add: final_result_def is_retry_def status_forcelist_def)
    from upload_file_transfer [OF opens, of net blocksize presigned_url "folder_path @ [file_name
        file]" "file_name file" 3 "(puts [FileApiLink (file_name file) media_url] st3)"] nr fr code
    have "upload_step net blocksize folder_path file presigned_url media_url st3 = (Inr False,
        (report (file_name file) (st_size file) (counts 0 (attempt_reads (net (length (calls (puts
        [FileApiLink (file_name file) media_url] st3))) (upload_request folder_path file
        presigned_url)) (file_reads (st_size file) blocksize))) (puts [FileApiLink (file_name file)
        media_url] st3))\<lparr>calls := calls (puts [FileApiLink (file_name file) media_url] st3) @
        replicate 1 (upload_request folder_path file presigned_url)\<rparr>)"
      by auto
    from failed [OF this]
    show ?thesis by simp
  qed
  have i3: "2 \<le> length (new_calls (puts [FileApiLink (file_name file) media_url] st3) (snd
      (upload_step net blocksize folder_path file presigned_url media_url st3)))"
    if "(\<exists>c b. net (length (calls st3)) (upload_request folder_path file presigned_url) = Response c
        True b \<and> c \<in> {413, 429})"
  proof -
    from that obtain code b where rep: "net (length (calls st3)) (upload_request folder_path file
        presigned_url) = Response code True b"
      and code: "code \<in> {413, 429}" by blast
    have "retried 3 (net (length (calls (puts [FileApiLink (file_name file) media_url] st3)))
        (upload_request folder_path file presigned_url))"
      using rep code by (auto simp: retried_def is_retry_def)
    with upload_file_transfer [OF opens, of net blocksize presigned_url "folder_path @ [file_name
        file]" "file_name file" 3 "(puts [FileApiLink (file_name file) media_url] st3)"]
    show ?thesis
      by (auto simp: new_calls_def)
  qed
  from i1 i2 i3 show ?thesis by blast
qed

text \<open>
  A storage that always answers 503 gets four attempts, one that answers 403 gets one;
  both files end with \<^verbatim>\<open>"Upload Failed"\<close>.
\<close>

theorem transfer_retry_bound_witness:
  "\<not> too_large (st_size clip) \<and> opens clip
   \<and> (\<forall>k. \<exists>ra b. storage_busy k (upload_file_request (JStr ''https://store.example/put'')
       [''videos'', ''clip.mp4'']) = Response 503 ra b)
   \<and> map op (calls (snd (process_file storage_busy 4 no_guess [''videos''] ''key''
       ''https://feed.example'' 1 0 clip initial_state)))
      = [CreateItem ''clip'' ''published'', PresignedUrl (JStr ''7'') ''video'' [''videos'',
          ''clip.mp4''], PutFile (JStr ''https://store.example/put'') [''videos'', ''clip.mp4''],
          PutFile (JStr ''https://store.example/put'') [''videos'', ''clip.mp4''], PutFile (JStr
          ''https://store.example/put'') [''videos'', ''clip.mp4''], PutFile (JStr
          ''https://store.example/put'') [''videos'', ''clip.mp4'']]
   \<and> drop (length (queue (snd (process_file storage_busy 4 no_guess [''videos''] ''key''
       ''https://feed.example'' 1 0 clip initial_state))) - 2) (queue (snd (process_file
       storage_busy 4 no_guess [''videos''] ''key'' ''https://feed.example'' 1 0 clip
       initial_state)))
      = [Status (FailedUpload ''clip.mp4''), FileStatus ''clip.mp4'' ''Upload Failed'']
   \<and> upload_denied 2 (upload_file_request (JStr ''https://store.example/put'') [''videos'',
       ''clip.mp4'']) = Response 403 False NotJson
   \<and> map op (calls (snd (process_file upload_denied 4 no_guess [''videos''] ''key''
       ''https://feed.example'' 1 0 clip initial_state)))
      = [CreateItem ''clip'' ''published'', PresignedUrl (JStr ''7'') ''video'' [''videos'',
          ''clip.mp4''], PutFile (JStr ''https://store.example/put'') [''videos'', ''clip.mp4'']]
   \<and> drop (length (queue (snd (process_file upload_denied 4 no_guess [''videos''] ''key''
       ''https://feed.example'' 1 0 clip initial_state))) - 2) (queue (snd (process_file
       upload_denied 4 no_guess [''videos''] ''key'' ''https://feed.example'' 1 0 clip
       initial_state)))
      = [Status (FailedUpload ''clip.mp4''), FileStatus ''clip.mp4'' ''Upload Failed'']"
proof -
  have small: "\<not> too_large (st_size clip)"
    by (simp add: clip_def too_large_def)
  have opens: "opens clip"
    by (simp add: clip_def)
  have busy: "\<forall>k. \<exists>ra b. storage_busy k (upload_file_request (JStr ''https://store.example/put'')
      ([''videos''] @ [file_name clip])) = Response 503 ra b"
    by (auto simp: storage_busy_def service_def upload_file_request_def)
  have part1: "drop (length (queue (snd (process_file storage_busy 4 no_guess [''videos''] ''key''
      ''https://feed.example'' 1 0 clip initial_state))) - 2) (queue (snd (process_file storage_busy
      4 no_guess [''videos''] ''key'' ''https://feed.example'' 1 0 clip initial_state)))
      = [Status (FailedUpload ''clip.mp4''), FileStatus ''clip.mp4'' ''Upload Failed'']"
  proof -
  let ?st2 = "snd (create_step storage_busy ''https://feed.example'' ''key'' (1::nat) (0::nat) clip
      initial_state)"
  let ?st3 = "snd (credential_step storage_busy ''https://feed.example'' ''key'' [''videos''] clip
      (JStr ''7'') ?st2)"
  have c: "create_step storage_busy ''https://feed.example'' ''key'' (1::nat) (0::nat) clip
      initial_state = (Inr (Some (JStr ''7'')), ?st2)"
    by (simp add: storage_busy_def found_def accepted_def process_file_def Let_def clip_def
        too_large_def service_def create_item_def create_item_request_def generate_presigned_url_def
        generate_presigned_url_request_def upload_file_def upload_file_request_def session_put.simps
        file_reads_def chunk_lens.simps ProgressFile_init_def ProgressFile_read_def
        progress_callback_def put_def is_retry_def status_forcelist_def fetch_item_def
        fetch_item_request_def update_item_with_attachment_def
        update_item_with_attachment_request_def send_def puts_def initial_state_def no_guess_def
        new_events_def new_calls_def)
  have p: "credential_step storage_busy ''https://feed.example'' ''key'' [''videos''] clip (JStr
      ''7'') ?st2 = (Inr (Some ((JStr ''https://store.example/put''), (JStr
      ''https://media.example/clip.mp4''))), ?st3)"
    by (simp add: storage_busy_def found_def accepted_def process_file_def Let_def clip_def
        too_large_def service_def create_item_def create_item_request_def generate_presigned_url_def
        generate_presigned_url_request_def upload_file_def upload_file_request_def session_put.simps
        file_reads_def chunk_lens.simps ProgressFile_init_def ProgressFile_read_def
        progress_callback_def put_def is_retry_def status_forcelist_def fetch_item_def
        fetch_item_request_def update_item_with_attachment_def
        update_item_with_attachment_request_def send_def puts_def initial_state_def no_guess_def
        new_events_def new_calls_def)
    from transfer_retry_bound [where guess_type = no_guess, OF small c p opens] busy
    show ?thesis by (simp add: clip_def)
  qed
  have denied: "\<exists>c b. upload_denied (length (calls (snd (generate_presigned_url upload_denied
      ''https://feed.example'' ''key'' (JStr ''7'') ''video'' ([''videos''] @ [file_name clip])
      (puts [FileItemId (file_name clip) (JStr ''7'')] (snd (create_step upload_denied
      ''https://feed.example'' ''key'' (1::nat) (0::nat) clip initial_state)))))))
      (upload_file_request (JStr ''https://store.example/put'') ([''videos''] @ [file_name clip])) =
      Response c False b \<and> 400 \<le> c \<and> c < 500"
    by (auto simp: upload_denied_def service_def upload_file_request_def create_item_def
        generate_presigned_url_def send_def puts_def initial_state_def)
  have part2: "drop (length (queue (snd (process_file upload_denied 4 no_guess [''videos''] ''key''
      ''https://feed.example'' 1 0 clip initial_state))) - 2) (queue (snd (process_file
      upload_denied 4 no_guess [''videos''] ''key'' ''https://feed.example'' 1 0 clip
      initial_state)))
      = [Status (FailedUpload ''clip.mp4''), FileStatus ''clip.mp4'' ''Upload Failed'']"
  proof -
  let ?st2 = "snd (create_step upload_denied ''https://feed.example'' ''key'' (1::nat) (0::nat) clip
      initial_state)"
  let ?st3 = "snd (credential_step upload_denied ''https://feed.example'' ''key'' [''videos''] clip
      (JStr ''7'') ?st2)"
  have c: "create_step upload_denied ''https://feed.example'' ''key'' (1::nat) (0::nat) clip
      initial_state = (Inr (Some (JStr ''7'')), ?st2)"
    by (simp add: upload_denied_def found_def accepted_def process_file_def Let_def clip_def
        too_large_def service_def create_item_def create_item_request_def generate_presigned_url_def
        generate_presigned_url_request_def upload_file_def upload_file_request_def session_put.simps
        file_reads_def chunk_lens.simps ProgressFile_init_def ProgressFile_read_def
        progress_callback_def put_def is_retry_def status_forcelist_def fetch_item_def
        fetch_item_request_def update_item_with_attachment_def
        update_item_with_attachment_request_def send_def puts_def initial_state_def no_guess_def
        new_events_def new_calls_def)
  have p: "credential_step upload_denied ''https://feed.example'' ''key'' [''videos''] clip (JStr
      ''7'') ?st2 = (Inr (Some ((JStr ''https://store.example/put''), (JStr
      ''https://media.example/clip.mp4''))), ?st3)"
    by (simp add: upload_denied_def found_def accepted_def process_file_def Let_def clip_def
        too_large_def service_def create_item_def create_item_request_def generate_presigned_url_def
        generate_presigned_url_request_def upload_file_def upload_file_request_def session_put.simps
        file_reads_def chunk_lens.simps ProgressFile_init_def ProgressFile_read_def
        progress_callback_def put_def is_retry_def status_forcelist_def fetch_item_def
        fetch_item_request_def update_item_with_attachment_def
        update_item_with_attachment_request_def send_def puts_def initial_state_def no_guess_def
        new_events_def new_calls_def)
    from transfer_retry_bound [where guess_type = no_guess, OF small c p opens] denied
    show ?thesis by (simp add: clip_def)
  qed
  have calls1: "map op (calls (snd (process_file storage_busy 4 no_guess [''videos''] ''key''
      ''https://feed.example'' 1 0 clip initial_state)))
      = [CreateItem ''clip'' ''published'', PresignedUrl (JStr ''7'') ''video'' [''videos'',
          ''clip.mp4''], PutFile (JStr ''https://store.example/put'') [''videos'', ''clip.mp4''],
          PutFile (JStr ''https://store.example/put'') [''videos'', ''clip.mp4''], PutFile (JStr
          ''https://store.example/put'') [''videos'', ''clip.mp4''], PutFile (JStr
          ''https://store.example/put'') [''videos'', ''clip.mp4'']]"
    by (simp add: storage_busy_def found_def accepted_def process_file_def Let_def clip_def
        too_large_def service_def create_item_def create_item_request_def generate_presigned_url_def
        generate_presigned_url_request_def upload_file_def upload_file_request_def session_put.simps
        file_reads_def chunk_lens.simps ProgressFile_init_def ProgressFile_read_def
        progress_callback_def put_def is_retry_def status_forcelist_def fetch_item_def
        fetch_item_request_def update_item_with_attachment_def
        update_item_with_attachment_request_def send_def puts_def initial_state_def no_guess_def
        new_events_def new_calls_def)
  have calls2: "map op (calls (snd (process_file upload_denied 4 no_guess [''videos''] ''key''
      ''https://feed.example'' 1 0 clip initial_state)))
      = [CreateItem ''clip'' ''published'', PresignedUrl (JStr ''7'') ''video'' [''videos'',
          ''clip.mp4''], PutFile (JStr ''https://store.example/put'') [''videos'', ''clip.mp4'']]"
    by (simp add: upload_denied_def found_def accepted_def process_file_def Let_def clip_def
        too_large_def service_def create_item_def create_item_request_def generate_presigned_url_def
        generate_presigned_url_request_def upload_file_def upload_file_request_def session_put.simps
        file_reads_def chunk_lens.simps ProgressFile_init_def ProgressFile_read_def
        progress_callback_def put_def is_retry_def status_forcelist_def fetch_item_def
        fetch_item_request_def update_item_with_attachment_def
        update_item_with_attachment_request_def send_def puts_def initial_state_def no_guess_def
        new_events_def new_calls_def)
  have rep2: "upload_denied 2 (upload_file_request (JStr ''https://store.example/put'') [''videos'',
      ''clip.mp4'']) = Response 403 False NotJson"
    by (simp add: upload_denied_def service_def upload_file_request_def)
  from small opens busy part1 part2 calls1 calls2 rep2 show ?thesis
    by (simp add: clip_def)
qed

text \<open>
  C3. A 4xx answer can be retried: the library's retry policy honours \<^verbatim>\<open>Retry-After\<close> on
  413, 429 and 503 by default, and the source does not switch that off. Here the first
  attempt is answered with 429 and \<^verbatim>\<open>Retry-After\<close>; a second attempt follows, succeeds,
  and the file is completed.
\<close>

theorem throttled_upload_retried_counterexample:
  "throttled_once 2 (upload_file_request (JStr ''https://store.example/put'') [''videos'',
      ''clip.mp4'']) = Response 429 True NotJson
   \<and> map op (calls (snd (process_file throttled_once 4 no_guess [''videos''] ''key''
       ''https://feed.example'' 1 0 clip initial_state)))
      = [CreateItem ''clip'' ''published'', PresignedUrl (JStr ''7'') ''video'' [''videos'',
          ''clip.mp4''], PutFile (JStr ''https://store.example/put'') [''videos'', ''clip.mp4''],
          PutFile (JStr ''https://store.example/put'') [''videos'', ''clip.mp4''], FetchItem (JStr
          ''7''),
         UpdateItem (JStr ''7'') (JStr ''https://media.example/clip.mp4'')
             ''application/octet-stream'' 10 ''clip'' ''published'']
   \<and> FileStatus ''clip.mp4'' ''Completed'' \<in> set (queue (snd (process_file throttled_once 4 no_guess
       [''videos''] ''key'' ''https://feed.example'' 1 0 clip initial_state)))"
  by (simp add: throttled_once_def found_def accepted_def process_file_def Let_def clip_def
      too_large_def service_def create_item_def create_item_request_def generate_presigned_url_def
      generate_presigned_url_request_def upload_file_def upload_file_request_def session_put.simps
      file_reads_def chunk_lens.simps ProgressFile_init_def ProgressFile_read_def
      progress_callback_def put_def is_retry_def status_forcelist_def fetch_item_def
      fetch_item_request_def update_item_with_attachment_def update_item_with_attachment_request_def
      send_def puts_def initial_state_def no_guess_def new_events_def new_calls_def)

section \<open>Progress of a transfer\<close>

lemma new_progress_upload:
  assumes "upload_file net blocksize presigned_url file_path file (Some (progress_callback name)) r
      st = (res, st')"
  shows "\<exists>rds. new_progress st st' = map (\<lambda>c. (c, st_size file)) (counts 0 rds)"
proof -
  from upload_file_state [OF assms] obtain n rds where
    "st' = (report name (st_size file) (counts 0 rds) st)\<lparr>calls := calls st @ replicate n
        (upload_file_request presigned_url file_path)\<rparr>"
    by blast
  then show ?thesis by (auto simp: new_progress_def)
qed

text \<open>
  C4. The last percentage is not always 100. The wrapper around the file is made once
  per call of \<^verbatim>\<open>upload_file\<close> and keeps counting when the transport sends the body
  again: the upload of a file of 10 bytes in blocks of 4 that succeeds at its second
  attempt reports 40, 80, 100, 140, 180 and 200. The closing event with 100 is put only
  after a successful fetch, and here the fetch fails.
\<close>

theorem final_progress_after_retry_counterexample:
  "progress_values (queue (snd (process_file flaky_storage 4 no_guess [''videos''] ''key''
      ''https://feed.example'' 1 0 clip initial_state))) = [40, 80, 100, 140, 180, 200]
   \<and> map fst (progress_calls (snd (process_file flaky_storage 4 no_guess [''videos''] ''key''
       ''https://feed.example'' 1 0 clip initial_state))) = [4, 8, 10, 14, 18, 20]
   \<and> Status (FailedFetch (JStr ''7'')) \<in> set (queue (snd (process_file flaky_storage 4 no_guess
       [''videos''] ''key'' ''https://feed.example'' 1 0 clip initial_state)))
   \<and> FileStatus ''clip.mp4'' ''Upload Failed'' \<notin> set (queue (snd (process_file flaky_storage 4
       no_guess [''videos''] ''key'' ''https://feed.example'' 1 0 clip initial_state)))"
  by (simp add: flaky_storage_def accepted_def process_file_def Let_def clip_def too_large_def
      service_def create_item_def create_item_request_def generate_presigned_url_def
      generate_presigned_url_request_def upload_file_def upload_file_request_def session_put.simps
      file_reads_def chunk_lens.simps ProgressFile_init_def ProgressFile_read_def
      progress_callback_def put_def is_retry_def status_forcelist_def fetch_item_def
      fetch_item_request_def update_item_with_attachment_def update_item_with_attachment_request_def
      send_def puts_def initial_state_def no_guess_def new_events_def new_calls_def)

text \<open>
  C4, as the code has it. Over one call of \<^verbatim>\<open>upload_file\<close> with the callback of the
  pipeline, the byte counts handed to the callback never decrease and each comes with the
  size of the file. When the file opens and is not empty and the first attempt is
  answered with 200, 201 or 204, the call returns \<^verbatim>\<open>True\<close> and the last percentage it
  emits is 100.
\<close>

theorem progress_counts_monotone:
  assumes run: "upload_file net blocksize presigned_url file_path file (Some (progress_callback
      name)) r st = (res, st')"
  shows "sorted (map fst (new_progress st st'))
     \<and> (\<forall>p \<in> set (new_progress st st'). snd p = st_size file)
     \<and> (opens file \<and> st_size file \<noteq> 0 \<and> blocksize \<noteq> 0
          \<and> (\<exists>c ra b. net (length (calls st)) (upload_file_request presigned_url file_path) =
              Response c ra b \<and> c \<in> {200, 201, 204})
         \<longrightarrow> res = Inr True \<and> progress_values (new_events st st') \<noteq> []
             \<and> last (progress_values (new_events st st')) = 100)"
proof -
  from new_progress_upload [OF run] obtain rds where
    np: "new_progress st st' = map (\<lambda>c. (c, st_size file)) (counts 0 rds)" by blast
  have mono: "sorted (map fst (new_progress st st'))"
    and paired: "\<forall>p \<in> set (new_progress st st'). snd p = st_size file"
    unfolding np by (simp_all add: comp_def sorted_counts)
  have final: "res = Inr True \<and> progress_values (new_events st st') \<noteq> []
             \<and> last (progress_values (new_events st st')) = 100"
    if opens: "opens file" and size: "st_size file \<noteq> 0" and bs: "blocksize \<noteq> 0"
      and rep: "net (length (calls st)) (upload_file_request presigned_url file_path) = Response c
          ra b" and ok: "c \<in> {200, 201, 204}"
    for c ra b
  proof -
    have nr: "\<not> retried r (net (length (calls st)) (upload_file_request presigned_url file_path))"
      and fr: "final_result r (net (length (calls st)) (upload_file_request presigned_url
          file_path)) = Some c"
      using rep ok by (auto simp: retried_def final_result_def is_retry_def status_forcelist_def)
    from upload_file_transfer [OF opens, of net blocksize presigned_url file_path name r st] nr fr rep ok run
    have res: "res = Inr True"
      and st': "st' = (report name (st_size file) (counts 0 (file_reads (st_size file) blocksize)) st)
                 \<lparr>calls := calls st @ [(upload_file_request presigned_url file_path)]\<rparr>"
      by (auto simp: attempt_reads_def)
    have ne: "counts 0 (file_reads (st_size file) blocksize) \<noteq> []"
      using size bs by (intro counts_nonempty) (simp add: sum_list_file_reads)
    from counts_last [OF ne] bs
    have l: "last (counts 0 (file_reads (st_size file) blocksize)) = st_size file"
      by (simp add: sum_list_file_reads)
    have pv: "progress_values (new_events st st')
        = map (\<lambda>c. of_nat c / of_nat (st_size file) * 100) (counts 0 (file_reads (st_size file) blocksize))"
      unfolding st' by (simp add: new_events_def progress_values_report)
    from ne l size res show ?thesis
      unfolding pv by (simp add: last_map)
  qed
  from mono paired final show ?thesis by blast
qed

text \<open>An upload of 10 bytes in blocks of 4 that is accepted at once.\<close>

theorem progress_counts_monotone_witness:
  "opens clip \<and> st_size clip \<noteq> 0
   \<and> storage_ok 0 (upload_file_request (JStr ''https://store.example/put'') [''videos'',
       ''clip.mp4'']) = Response 200 False NotJson
   \<and> fst (upload_file storage_ok 4 (JStr ''https://store.example/put'') [''videos'', ''clip.mp4'']
       clip (Some (progress_callback ''clip.mp4'')) 3 initial_state) = Inr True
   \<and> sorted (map fst (progress_calls (snd (upload_file storage_ok 4 (JStr
       ''https://store.example/put'') [''videos'', ''clip.mp4''] clip (Some (progress_callback
       ''clip.mp4'')) 3 initial_state))))
   \<and> last (progress_values (queue (snd (upload_file storage_ok 4 (JStr
       ''https://store.example/put'') [''videos'', ''clip.mp4''] clip (Some (progress_callback
       ''clip.mp4'')) 3 initial_state)))) = 100"
proof -
  have rep: "\<exists>c ra b. storage_ok (length (calls initial_state)) (upload_file_request (JStr
      ''https://store.example/put'') [''videos'', ''clip.mp4'']) = Response c ra b \<and> c \<in> {200, 201,
      204}"
    by (auto simp: storage_ok_def)
  have pre: "opens clip \<and> st_size clip \<noteq> 0 \<and> (4::nat) \<noteq> 0"
    by (simp add: clip_def)
  have run: "upload_file storage_ok 4 (JStr ''https://store.example/put'') [''videos'',
      ''clip.mp4''] clip (Some (progress_callback ''clip.mp4'')) 3 initial_state
      = (fst (upload_file storage_ok 4 (JStr ''https://store.example/put'') [''videos'',
          ''clip.mp4''] clip (Some (progress_callback ''clip.mp4'')) 3 initial_state),
         snd (upload_file storage_ok 4 (JStr ''https://store.example/put'') [''videos'',
             ''clip.mp4''] clip (Some (progress_callback ''clip.mp4'')) 3 initial_state))"
    by simp
  from progress_counts_monotone [OF run] rep pre
  show ?thesis
    by (simp add: new_progress_def new_events_def initial_state_def storage_ok_def)
qed

text \<open>
  C5. The counter is not set back between attempts. For a file of 10 bytes read in
  blocks of 4 whose first attempt is answered with 503, the second attempt reports 14, 18
  and 20, not 4, 8 and 10.
\<close>

theorem counter_carried_over_counterexample:
  "fst (upload_file retry_once 4 (JStr ''https://store.example/put'') [''videos'', ''clip.mp4'']
      clip (Some (progress_callback ''clip.mp4'')) 3 initial_state) = Inr True
   \<and> map op (calls (snd (upload_file retry_once 4 (JStr ''https://store.example/put'') [''videos'',
       ''clip.mp4''] clip (Some (progress_callback ''clip.mp4'')) 3 initial_state)))
      = [PutFile (JStr ''https://store.example/put'') [''videos'', ''clip.mp4''],
         PutFile (JStr ''https://store.example/put'') [''videos'', ''clip.mp4'']]
   \<and> progress_calls (snd (upload_file retry_once 4 (JStr ''https://store.example/put'') [''videos'',
       ''clip.mp4''] clip (Some (progress_callback ''clip.mp4'')) 3 initial_state))
      = [(4, 10), (8, 10), (10, 10), (14, 10), (18, 10), (20, 10)]"
  by (simp add: retry_once_def clip_def upload_file_def upload_file_request_def session_put.simps
      file_reads_def chunk_lens.simps ProgressFile_init_def ProgressFile_read_def progress_callback_def
      put_def is_retry_def status_forcelist_def send_def initial_state_def)

text \<open>
  C5, as the code has it. The counter starts at zero when \<^verbatim>\<open>upload_file\<close> wraps the file,
  once per call. When the first attempt of the call is retried, the counts of that
  attempt are the running totals from zero, and every count reported afterwards, in any
  later attempt, lies above the total the first attempt reached.
\<close>

theorem progress_counter_not_reset:
  assumes opens: "opens file"
    and run: "upload_file net blocksize presigned_url file_path file (Some (progress_callback name))
        r st = (res, st')"
    and again: "retried r (net (length (calls st)) (upload_file_request presigned_url file_path))"
  shows "read_bytes (ProgressFile_init (st_size file) (progress_callback name)) = 0
     \<and> 2 \<le> length (new_calls st st')
     \<and> (\<exists>later.
           map fst (new_progress st st')
             = counts 0 (attempt_reads (net (length (calls st)) (upload_file_request presigned_url
                 file_path)) (file_reads (st_size file) blocksize)) @ later
           \<and> (\<forall>c \<in> set later.
                 sum_list (attempt_reads (net (length (calls st)) (upload_file_request presigned_url
                     file_path)) (file_reads (st_size file) blocksize)) < c))"
proof -
  let ?first = "attempt_reads (net (length (calls st)) (upload_file_request presigned_url
      file_path)) (file_reads (st_size file) blocksize)"
  from upload_file_transfer [OF opens, of net blocksize presigned_url file_path name r st] again run
  obtain n rest where n: "2 \<le> n"
    and st': "st' = (report name (st_size file) (counts 0 (?first @ rest)) st)
                 \<lparr>calls := calls st @ replicate n (upload_file_request presigned_url file_path)\<rparr>"
    by auto
  have "map fst (new_progress st st') = counts 0 ?first @ counts (sum_list ?first) rest"
    unfolding st' by (simp add: new_progress_def counts_append comp_def)
  moreover have "\<forall>c \<in> set (counts (sum_list ?first) rest). sum_list ?first < c"
    by (auto dest: counts_lower)
  moreover have "2 \<le> length (new_calls st st')"
    unfolding st' using n by (simp add: new_calls_def)
  ultimately show ?thesis
    by (auto simp: ProgressFile_init_def)
qed

text \<open>The upload that is answered with 503 once.\<close>

theorem progress_counter_not_reset_witness:
  "opens clip
   \<and> retried 3 (retry_once (length (calls initial_state)) (upload_file_request (JStr
       ''https://store.example/put'') [''videos'', ''clip.mp4'']))
   \<and> 2 \<le> length (calls (snd (upload_file retry_once 4 (JStr ''https://store.example/put'')
       [''videos'', ''clip.mp4''] clip (Some (progress_callback ''clip.mp4'')) 3 initial_state)))
   \<and> (\<exists>later. map fst (progress_calls (snd (upload_file retry_once 4 (JStr
       ''https://store.example/put'') [''videos'', ''clip.mp4''] clip (Some (progress_callback
       ''clip.mp4'')) 3 initial_state)))
          = [4, 8, 10] @ later \<and> (\<forall>c \<in> set later. 10 < c))"
proof -
  have opens: "opens clip"
    by (simp add: clip_def)
  have again: "retried 3 (retry_once (length (calls initial_state)) (upload_file_request (JStr
      ''https://store.example/put'') [''videos'', ''clip.mp4'']))"
    by (simp add: retried_def retry_once_def is_retry_def status_forcelist_def initial_state_def)
  have first: "counts 0 (attempt_reads (retry_once (length (calls initial_state))
      (upload_file_request (JStr ''https://store.example/put'') [''videos'', ''clip.mp4'']))
      (file_reads (st_size clip) 4)) = [4, 8, 10]"
    and total: "sum_list (attempt_reads (retry_once (length (calls initial_state))
        (upload_file_request (JStr ''https://store.example/put'') [''videos'', ''clip.mp4'']))
        (file_reads (st_size clip) 4)) = 10"
    by (simp_all add: attempt_reads_def retry_once_def initial_state_def clip_def file_reads_def
        chunk_lens.simps)
  have run: "upload_file retry_once 4 (JStr ''https://store.example/put'') [''videos'',
      ''clip.mp4''] clip (Some (progress_callback ''clip.mp4'')) 3 initial_state
      = (fst (upload_file retry_once 4 (JStr ''https://store.example/put'') [''videos'',
          ''clip.mp4''] clip (Some (progress_callback ''clip.mp4'')) 3 initial_state),
         snd (upload_file retry_once 4 (JStr ''https://store.example/put'') [''videos'',
             ''clip.mp4''] clip (Some (progress_callback ''clip.mp4'')) 3 initial_state))"
    by simp
  from progress_counter_not_reset [OF opens run again]
  show ?thesis
    using opens again
    unfolding first total
    by (simp add: new_calls_def new_progress_def initial_state_def)
qed

end
